theory Spec2Isabelle
  imports
    Complex_Main
    "HOL-Library.Char_ord"
    "HOL-Library.List_Lexorder"
    "HOL-Library.Multiset"
    "HOL-Library.Product_Lexorder"
begin

section \<open>Python values, errors and effects\<close>

text \<open>
  The renderers of \<^verbatim>\<open>categorical_analysis/cateogry.py\<close> and
  \<^verbatim>\<open>numerical_analysis/numerical.py\<close> compute nothing of their own: each one
  allocates a figure with \<^verbatim>\<open>plt.subplots\<close>, walks its selector lists and issues charting
  calls on the panels. The embedding therefore keeps the figure as explicit state. An
  exception is a value of \<open>error\<close>; a statement is an \<open>action\<close>, which returns the
  exception it raised (if any) together with the state reached, so that what was already
  allocated or drawn when an exception escapes stays visible.

  Python floats are modelled by exact rationals: IEEE rounding is not part of the model.
\<close>

datatype error =
    ValueError string
  | TypeError string
  | IndexError string
  | KeyError string
  | AttributeError string

type_synonym 's action = "'s \<Rightarrow> error option \<times> 's"

text \<open>A \<^verbatim>\<open>for\<close> loop: the body runs on each element in turn and the first exception ends it.\<close>

fun for_each :: "('a \<Rightarrow> 's action) \<Rightarrow> 'a list \<Rightarrow> 's action" where
  "for_each body [] s = (None, s)"
| "for_each body (x # xs) s =
     (case body x s of
        (Some e, s') \<Rightarrow> (Some e, s')
      | (None, s') \<Rightarrow> for_each body xs s')"

text \<open>A block of statements, executed in order.\<close>

definition run :: "'s action list \<Rightarrow> 's action" where
  "run stmts = for_each (\<lambda>stmt. stmt) stmts"

definition bind_result :: "error + 'a \<Rightarrow> ('a \<Rightarrow> error + 'b) \<Rightarrow> error + 'b" where
  "bind_result m f = (case m of Inl e \<Rightarrow> Inl e | Inr v \<Rightarrow> f v)"

section \<open>Tables\<close>

text \<open>
  A pandas \<^verbatim>\<open>DataFrame\<close>: named columns and an ordered collection of rows. A cell is a
  string label, a number, or missing (\<^verbatim>\<open>NaN\<close>). Column labels are taken to be unique; a
  row lacking a field reads as missing.
\<close>

datatype cell = is_Str: Str string | is_Num: Num rat | NaN

type_synonym row = "(string \<times> cell) list"

record dataframe =
  columns :: "string list"
  rows :: "row list"

definition cell_of :: "row \<Rightarrow> string \<Rightarrow> cell" where
  "cell_of r c = (case map_of r c of Some v \<Rightarrow> v | None \<Rightarrow> NaN)"

text \<open>\<^verbatim>\<open>df[c]\<close>: the column as a sequence of cells, \<^verbatim>\<open>KeyError\<close> for an unknown label.\<close>

definition getcol :: "dataframe \<Rightarrow> string \<Rightarrow> error + cell list" where
  "getcol df c =
     (if c \<in> set (columns df) then Inr (map (\<lambda>r. cell_of r c) (rows df))
      else Inl (KeyError c))"

text \<open>
  \<^verbatim>\<open>df[df[c] == v]\<close>: the comparison yields a boolean mask, one entry per row, and
  indexing by the mask keeps the rows whose entry is true, in order.
\<close>

definition select_eq :: "dataframe \<Rightarrow> string \<Rightarrow> string \<Rightarrow> error + dataframe" where
  "select_eq df c v =
     (case getcol df c of
        Inl e \<Rightarrow> Inl e
      | Inr vals \<Rightarrow>
          Inr (df\<lparr>rows := map snd (filter fst (zip (map (\<lambda>x. x = Str v) vals) (rows df)))\<rparr>))"

text \<open>
  \<^verbatim>\<open>Series.value_counts(normalize=True)\<close>: missing cells are dropped, the distinct values
  are counted and listed by descending count, and each count is divided by the number of
  cells that were counted. The order among equal counts is erased by the \<^verbatim>\<open>sort_index\<close>
  that follows in the renderer.
\<close>

definition value_counts_normalize :: "cell list \<Rightarrow> (cell \<times> rat) list" where
  "value_counts_normalize vals =
     (let present = filter (\<lambda>v. v \<noteq> NaN) vals;
          counts = sort_key (\<lambda>(l, c). - int c)
                     (map (\<lambda>l. (l, count_list present l)) (remdups present))
      in map (\<lambda>(l, c). (l, of_nat c / of_nat (length present))) counts)"

text \<open>\<^verbatim>\<open>series * k\<close>.\<close>

definition times :: "(cell \<times> rat) list \<Rightarrow> rat \<Rightarrow> (cell \<times> rat) list" where
  "times s k = map (\<lambda>(l, v). (l, v * k)) s"

text \<open>
  \<^verbatim>\<open>Series.sort_index()\<close>: ascending by label. Strings compare character by character,
  numbers by value, and an index that mixes the two cannot be ordered. The key orders
  labels of one kind as Python does.
\<close>

definition label_key :: "cell \<Rightarrow> rat \<times> string" where
  "label_key l = (case l of Str s \<Rightarrow> (0, s) | Num q \<Rightarrow> (q, []) | NaN \<Rightarrow> (0, []))"

definition sort_index :: "(cell \<times> rat) list \<Rightarrow> error + (cell \<times> rat) list" where
  "sort_index s =
     (if list_ex (\<lambda>(l, v). is_Str l) s \<and> list_ex (\<lambda>(l, v). is_Num l) s
      then Inl (TypeError ''not supported between instances of str and float'')
      else Inr (sort_key (\<lambda>(l, v). label_key l) s))"

text \<open>\<^verbatim>\<open>pd.DataFrame({"proportion": s, "category": s.index})\<close>.\<close>

definition proportions_frame :: "(cell \<times> rat) list \<Rightarrow> dataframe" where
  "proportions_frame s =
     \<lparr>columns = [''proportion'', ''category''],
      rows = map (\<lambda>(l, v). [(''proportion'', Num v), (''category'', l)]) s\<rparr>"

text \<open>
  The statistics table handed to \<^verbatim>\<open>plot_histograms\<close>: its columns in order, each with
  its entries by row label. \<^verbatim>\<open>stats.loc[r, c]\<close> raises \<^verbatim>\<open>KeyError\<close> for an unknown label.
\<close>

type_synonym stats_table = "(string \<times> (string \<times> rat) list) list"

definition loc :: "stats_table \<Rightarrow> string \<Rightarrow> string \<Rightarrow> error + rat" where
  "loc stats r c =
     (case map_of stats c of
        None \<Rightarrow> Inl (KeyError c)
      | Some entries \<Rightarrow>
          (case map_of entries r of None \<Rightarrow> Inl (KeyError r) | Some v \<Rightarrow> Inr v))"

text \<open>
  The format \<^verbatim>\<open>f"{h:.2f}"\<close>: two decimals, ties to even, on the exact value.
\<close>

definition digit :: "nat \<Rightarrow> char" where
  "digit d = ''0123456789'' ! (d mod 10)"

fun digits_of :: "nat \<Rightarrow> string" where
  "digits_of n = (if n < 10 then [digit n] else digits_of (n div 10) @ [digit (n mod 10)])"

declare digits_of.simps [simp del]

definition round_half_even :: "rat \<Rightarrow> int" where
  "round_half_even q =
     (let f = \<lfloor>q\<rfloor>; d = q - of_int f
      in if d < 1 / 2 then f else if 1 / 2 < d then f + 1 else if even f then f else f + 1)"

definition fmt_2f :: "rat \<Rightarrow> string" where
  "fmt_2f q =
     (let n = nat (round_half_even (\<bar>q\<bar> * 100))
      in (if q < 0 then ''-'' else []) @ digits_of (n div 100) @ ''.'' @
         [digit (n mod 100 div 10), digit (n mod 10)])"

section \<open>The charting layer\<close>

text \<open>
  matplotlib and seaborn are not part of the repository. What follows models the part of
  their documented behaviour that the renderers rely on: how \<^verbatim>\<open>plt.subplots\<close> shapes the
  panel collection it returns, how that collection is indexed, and which artists, labels
  and limits a call leaves on a panel. A charting call is recorded on the panel it is given,
  with the arguments the renderer passed.
\<close>

datatype palette =
    NoPalette
  | PaletteName string
  | PaletteList "string list"
  | PaletteDict "(string \<times> string) list"

datatype multiple = Layer | Dodge | Stack | Fill

record hist_args =
  h_data :: dataframe
  h_x :: string
  h_hue :: "string option"
  h_palette :: palette
  h_bins :: int
  h_multiple :: multiple
  h_alpha :: "rat option"
  h_color :: "string option"
  h_kde :: bool

datatype plot_call =
    Countplot string dataframe palette rat
  | Barplot dataframe string string palette
  | Violinplot bool dataframe string string string palette
  | Boxplot dataframe string string string palette
  | Histplot hist_args

record patch =
  p_x :: rat
  p_width :: rat
  p_height :: rat

datatype line_kind = Curve | VLine rat

record line2d =
  l_kind :: line_kind
  l_color :: string
  l_linestyle :: string
  l_linewidth :: rat
  l_label :: "string option"

record text_artist =
  t_x :: rat
  t_y :: rat
  t_s :: string
  t_ha :: string

record axes =
  artists :: "plot_call list"
  patches :: "patch list"
  lines :: "line2d list"
  texts :: "text_artist list"
  title :: string
  xlabel :: string
  ylabel :: string
  ylabel_style :: "(int \<times> int) option"
  ylim :: "(rat \<times> rat) option"
  xticklabels :: "cell list"
  xtick_style :: "(int \<times> string) option"
  legend :: "string list option"

definition empty_axes :: axes where
  "empty_axes =
     \<lparr>artists = [], patches = [], lines = [], texts = [], title = [], xlabel = [],
      ylabel = [], ylabel_style = None, ylim = None, xticklabels = [], xtick_style = None,
      legend = None\<rparr>"

record figure =
  figsize :: "rat \<times> rat"
  panels :: "axes list list"
  suptitle :: "string option"
  subplots_top :: "rat option"

text \<open>
  What \<^verbatim>\<open>plt.subplots\<close> hands back besides the figure: a single \<^verbatim>\<open>Axes\<close>, or an array of
  them. An \<open>Axes\<close> is named by its grid position.
\<close>

datatype handle = Axes "nat \<times> nat" | AxesArray "handle list"

text \<open>\<^verbatim>\<open>plt.figure(figsize=...)\<close>: a new figure, which has no panel yet.\<close>

definition new_figure :: "rat \<times> rat \<Rightarrow> figure" where
  "new_figure fsize = \<lparr>figsize = fsize, panels = [], suptitle = None, subplots_top = None\<rparr>"

text \<open>
  \<^verbatim>\<open>plt.subplots(nrows, ncols, figsize=...)\<close> with the default \<^verbatim>\<open>squeeze=True\<close>. The
  figure is made first and the grid of panels is laid out on it afterwards, so the figure
  comes back in either case: with the panels and their handle, or, for a grid without rows
  or columns, which the layout refuses, without any panel and with the error. A 1x1 grid
  yields the \<^verbatim>\<open>Axes\<close> itself, a single row or column a one-dimensional array, anything else
  a two-dimensional array.
\<close>

definition subplots :: "nat \<Rightarrow> nat \<Rightarrow> rat \<times> rat \<Rightarrow> figure \<times> (error + handle)" where
  "subplots nrows ncols fsize =
     (let fig = new_figure fsize
      in if nrows = 0 then
           (fig, Inl (ValueError ''Number of rows must be a positive integer, not 0''))
         else if ncols = 0 then
           (fig, Inl (ValueError ''Number of columns must be a positive integer, not 0''))
         else
           (fig\<lparr>panels := replicate nrows (replicate ncols empty_axes)\<rparr>,
            Inr (if nrows = 1 \<and> ncols = 1 then Axes (0, 0)
                 else if nrows = 1 then AxesArray (map (\<lambda>j. Axes (0, j)) [0..<ncols])
                 else if ncols = 1 then AxesArray (map (\<lambda>i. Axes (i, 0)) [0..<nrows])
                 else AxesArray (map (\<lambda>i. AxesArray (map (\<lambda>j. Axes (i, j)) [0..<ncols]))
                        [0..<nrows]))))"

text \<open>\<^verbatim>\<open>axs[i]\<close> for a non-negative \<^verbatim>\<open>i\<close>: an \<^verbatim>\<open>Axes\<close> is not subscriptable.\<close>

fun getitem :: "handle \<Rightarrow> nat \<Rightarrow> error + handle" where
  "getitem (Axes p) i = Inl (TypeError ''Axes object is not subscriptable'')"
| "getitem (AxesArray hs) i =
     (if i < length hs then Inr (hs ! i)
      else Inl (IndexError ''index is out of bounds''))"

text \<open>\<^verbatim>\<open>axs[i][j]\<close>.\<close>

definition getitem_chain :: "handle \<Rightarrow> nat \<Rightarrow> nat \<Rightarrow> error + handle" where
  "getitem_chain axs i j = bind_result (getitem axs i) (\<lambda>r. getitem r j)"

text \<open>\<^verbatim>\<open>axs[i, j]\<close>: a tuple index needs a two-dimensional array.\<close>

fun getitem_tuple :: "handle \<Rightarrow> nat \<Rightarrow> nat \<Rightarrow> error + handle" where
  "getitem_tuple (Axes p) i j = Inl (TypeError ''Axes object is not subscriptable'')"
| "getitem_tuple (AxesArray []) i j = Inl (IndexError ''too many indices for array'')"
| "getitem_tuple (AxesArray (Axes p # hs)) i j =
     Inl (IndexError ''too many indices for array'')"
| "getitem_tuple (AxesArray (AxesArray r # hs)) i j =
     getitem_chain (AxesArray (AxesArray r # hs)) i j"

definition panel_at :: "figure \<Rightarrow> nat \<times> nat \<Rightarrow> axes" where
  "panel_at fig pos = panels fig ! fst pos ! snd pos"

definition put_panel :: "figure \<Rightarrow> nat \<times> nat \<Rightarrow> axes \<Rightarrow> figure" where
  "put_panel fig pos a =
     fig\<lparr>panels := (panels fig)[fst pos := (panels fig ! fst pos)[snd pos := a]]\<rparr>"

text \<open>
  A method call \<^verbatim>\<open>target.method(...)\<close>, or a charting call with \<^verbatim>\<open>ax=target\<close>: the
  target expression is evaluated first and may raise; an array has none of the \<^verbatim>\<open>Axes\<close>
  methods; the method itself may raise, leaving the panel as it was.
\<close>

definition call :: "error + handle \<Rightarrow> (axes \<Rightarrow> error + axes) \<Rightarrow> figure action" where
  "call target method fig =
     (case target of
        Inl e \<Rightarrow> (Some e, fig)
      | Inr (AxesArray hs) \<Rightarrow> (Some (AttributeError ''numpy.ndarray object''), fig)
      | Inr (Axes pos) \<Rightarrow>
          (case method (panel_at fig pos) of
             Inl e \<Rightarrow> (Some e, fig)
           | Inr a \<Rightarrow> (None, put_panel fig pos a)))"

subsection \<open>Axes methods\<close>

text \<open>A label of \<^verbatim>\<open>None\<close> is stored as the empty text.\<close>

definition text_of :: "string option \<Rightarrow> string" where
  "text_of s = (case s of None \<Rightarrow> [] | Some t \<Rightarrow> t)"

definition set_title :: "string option \<Rightarrow> axes \<Rightarrow> error + axes" where
  "set_title s a = Inr (a\<lparr>title := text_of s\<rparr>)"

definition set_xlabel :: "string option \<Rightarrow> axes \<Rightarrow> error + axes" where
  "set_xlabel s a = Inr (a\<lparr>xlabel := text_of s\<rparr>)"

definition set_ylabel :: "string option \<Rightarrow> axes \<Rightarrow> error + axes" where
  "set_ylabel s a = Inr (a\<lparr>ylabel := text_of s\<rparr>)"

text \<open>\<^verbatim>\<open>set_ylabel(s, labelpad=p, rotation=r)\<close>.\<close>

definition set_ylabel_styled :: "string option \<Rightarrow> int \<Rightarrow> int \<Rightarrow> axes \<Rightarrow> error + axes" where
  "set_ylabel_styled s labelpad rotation a =
     Inr (a\<lparr>ylabel := text_of s, ylabel_style := Some (labelpad, rotation)\<rparr>)"

definition set_ylim :: "rat \<Rightarrow> rat \<Rightarrow> axes \<Rightarrow> error + axes" where
  "set_ylim lo hi a = Inr (a\<lparr>ylim := Some (lo, hi)\<rparr>)"

text \<open>\<^verbatim>\<open>set_xticklabels(get_xticklabels(), rotation=r, ha=h)\<close>: the labels stay.\<close>

definition restyle_xticklabels :: "int \<Rightarrow> string \<Rightarrow> axes \<Rightarrow> error + axes" where
  "restyle_xticklabels rotation ha a = Inr (a\<lparr>xtick_style := Some (rotation, ha)\<rparr>)"

text \<open>\<^verbatim>\<open>text(x, y, s, ha=h)\<close>.\<close>

definition add_text :: "rat \<Rightarrow> rat \<Rightarrow> string \<Rightarrow> string \<Rightarrow> axes \<Rightarrow> error + axes" where
  "add_text x y s ha a =
     Inr (a\<lparr>texts := texts a @ [\<lparr>t_x = x, t_y = y, t_s = s, t_ha = ha\<rparr>]\<rparr>)"

text \<open>\<^verbatim>\<open>lines[k].set_color(c)\<close>: \<^verbatim>\<open>IndexError\<close> when the panel has no such line.\<close>

definition set_line_color :: "nat \<Rightarrow> string \<Rightarrow> axes \<Rightarrow> error + axes" where
  "set_line_color k c a =
     (if k < length (lines a) then Inr (a\<lparr>lines := (lines a)[k := (lines a ! k)\<lparr>l_color := c\<rparr>]\<rparr>)
      else Inl (IndexError ''list index out of range''))"

text \<open>
  \<^verbatim>\<open>axvline(x=..., color=..., linestyle=..., linewidth=..., label=...)\<close>. The position
  is an expression of the caller that may itself raise.
\<close>

definition axvline ::
  "error + rat \<Rightarrow> string \<Rightarrow> string \<Rightarrow> rat \<Rightarrow> string \<Rightarrow> axes \<Rightarrow> error + axes" where
  "axvline x color linestyle linewidth label a =
     (case x of
        Inl e \<Rightarrow> Inl e
      | Inr v \<Rightarrow>
          Inr (a\<lparr>lines := lines a @
                 [\<lparr>l_kind = VLine v, l_color = color, l_linestyle = linestyle,
                   l_linewidth = linewidth, l_label = Some label\<rparr>]\<rparr>))"

text \<open>\<^verbatim>\<open>legend()\<close> lists the labelled lines of the panel.\<close>

definition show_legend :: "axes \<Rightarrow> error + axes" where
  "show_legend a = Inr (a\<lparr>legend := Some (List.map_filter l_label (lines a))\<rparr>)"

subsection \<open>seaborn calls\<close>

text \<open>A variable that names no column of the data is refused.\<close>

definition check_vars :: "dataframe \<Rightarrow> string list \<Rightarrow> error + unit" where
  "check_vars df vars =
     (case filter (\<lambda>v. v \<notin> set (columns df)) vars of
        [] \<Rightarrow> Inr ()
      | v # _ \<Rightarrow> Inl (ValueError (''Could not interpret value '' @ v)))"

definition record_call :: "plot_call \<Rightarrow> string \<Rightarrow> string \<Rightarrow> axes \<Rightarrow> axes" where
  "record_call c xl yl a = a\<lparr>artists := artists a @ [c], xlabel := xl, ylabel := yl\<rparr>"

definition violinplot ::
  "bool \<Rightarrow> dataframe \<Rightarrow> string \<Rightarrow> string \<Rightarrow> string \<Rightarrow> palette \<Rightarrow> axes \<Rightarrow> error + axes" where
  "violinplot split df x y hue pal a =
     bind_result (check_vars df [x, y, hue])
       (\<lambda>_. Inr (record_call (Violinplot split df x y hue pal) x y a))"

definition boxplot ::
  "dataframe \<Rightarrow> string \<Rightarrow> string \<Rightarrow> string \<Rightarrow> palette \<Rightarrow> axes \<Rightarrow> error + axes" where
  "boxplot df x y hue pal a =
     bind_result (check_vars df [x, y, hue])
       (\<lambda>_. Inr (record_call (Boxplot df x y hue pal) x y a))"

text \<open>
  \<^verbatim>\<open>countplot\<close> labels the axes with the variable and \<^verbatim>\<open>count\<close>. The bars it draws are
  never read back by a renderer and are not kept.
\<close>

definition countplot :: "string \<Rightarrow> dataframe \<Rightarrow> palette \<Rightarrow> rat \<Rightarrow> axes \<Rightarrow> error + axes" where
  "countplot x df pal alpha a =
     bind_result (check_vars df [x])
       (\<lambda>_. Inr (record_call (Countplot x df pal alpha) x ''count'' a))"

text \<open>
  \<^verbatim>\<open>barplot\<close> on a frame whose categories are pairwise distinct, as the one the
  proportion renderer builds: one bar per row, in row order, centred on its position with
  the default width, as high as the row's value; the tick labels are the categories.
\<close>

definition num_of :: "cell \<Rightarrow> rat" where
  "num_of c = (case c of Num q \<Rightarrow> q | _ \<Rightarrow> 0)"

definition barplot :: "dataframe \<Rightarrow> string \<Rightarrow> string \<Rightarrow> palette \<Rightarrow> axes \<Rightarrow> error + axes" where
  "barplot df x y pal a =
     bind_result (check_vars df [x, y])
       (\<lambda>_. Inr ((record_call (Barplot df x y pal) x y a)
              \<lparr>patches := patches a @
                 map (\<lambda>(k, r). \<lparr>p_x = of_nat k - 2 / 5, p_width = 4 / 5,
                                 p_height = num_of (cell_of r y)\<rparr>)
                   (enumerate 0 (rows df)),
               xticklabels := map (\<lambda>r. cell_of r x) (rows df)\<rparr>))"

text \<open>
  \<^verbatim>\<open>histplot\<close> labels the axes with the variable and \<^verbatim>\<open>Count\<close>. With \<^verbatim>\<open>kde=True\<close> it
  adds one density curve to the panel's lines for the data, or for each \<^verbatim>\<open>hue\<close> group,
  and skips a group whose values have no variance (fewer than two distinct numbers).
\<close>

definition estimable :: "cell list \<Rightarrow> bool" where
  "estimable vals = (2 \<le> length (remdups (filter is_Num vals)))"

definition kde_groups :: "hist_args \<Rightarrow> cell list list" where
  "kde_groups args =
     (let rs = rows (h_data args)
      in case h_hue args of
           None \<Rightarrow> [map (\<lambda>r. cell_of r (h_x args)) rs]
         | Some h \<Rightarrow>
             map (\<lambda>l. map (\<lambda>r. cell_of r (h_x args)) (filter (\<lambda>r. cell_of r h = l) rs))
               (remdups (filter (\<lambda>v. v \<noteq> NaN) (map (\<lambda>r. cell_of r h) rs))))"

definition kde_curves :: "hist_args \<Rightarrow> line2d list" where
  "kde_curves args =
     (if h_kde args then
        map (\<lambda>g. \<lparr>l_kind = Curve,
                   l_color = (case h_color args of Some c \<Rightarrow> c | None \<Rightarrow> []),
                   l_linestyle = ''-'', l_linewidth = 3 / 2, l_label = None\<rparr>)
          (filter estimable (kde_groups args))
      else [])"

definition histplot :: "hist_args \<Rightarrow> axes \<Rightarrow> error + axes" where
  "histplot args a =
     bind_result
       (check_vars (h_data args)
          (h_x args # (case h_hue args of None \<Rightarrow> [] | Some h \<Rightarrow> [h])))
       (\<lambda>_. Inr ((record_call (Histplot args) (h_x args) ''Count'' a)
              \<lparr>lines := lines a @ kde_curves args\<rparr>))"

text \<open>The shape \<^verbatim>\<open>plt.subplots\<close> gives a figure: so many rows of so many panels.\<close>

definition grid_shape :: "nat \<Rightarrow> nat \<Rightarrow> figure \<Rightarrow> bool" where
  "grid_shape r c fig =
     (length (panels fig) = r \<and> (\<forall>i < r. length (panels fig ! i) = c))"

section \<open>The renderers\<close>

subsection \<open>\<^verbatim>\<open>plot_categorical_vs_numeric\<close>\<close>

definition plot_type_message :: string where
  "plot_type_message =
     ''plot_type must be either '' @ [CHR 0x27] @ ''violin'' @ [CHR 0x27] @ '' or '' @
     [CHR 0x27] @ ''box'' @ [CHR 0x27]"

definition raise :: "error \<Rightarrow> 's action" where
  "raise e s = (Some e, s)"

definition categorical_vs_numeric_cell ::
  "dataframe \<Rightarrow> string \<Rightarrow> palette \<Rightarrow> handle \<Rightarrow> nat \<Rightarrow> string \<Rightarrow> nat \<times> string \<Rightarrow> figure action"
  where
  "categorical_vs_numeric_cell df plot_type pal axs i i_col = (\<lambda>(j, j_col).
     run [
       if plot_type = ''violin'' then
         call (getitem_tuple axs i j)
           (violinplot (if i = 2 then True else False) df ''species'' j_col i_col pal)
       else if plot_type = ''box'' then
         call (getitem_chain axs i j) (boxplot df ''species'' j_col i_col pal)
       else raise (ValueError plot_type_message),
       call (getitem_chain axs i j) (set_title (if i = 0 then Some j_col else None)),
       call (getitem_chain axs i j) (set_xlabel None),
       call (getitem_chain axs i j) (set_ylabel None)])"

definition plot_categorical_vs_numeric ::
  "dataframe \<Rightarrow> string list \<Rightarrow> string list \<Rightarrow> string \<Rightarrow> palette \<Rightarrow> figure list action" where
  "plot_categorical_vs_numeric df category_columns numeric_columns plot_type pal plt =
     (let num_rows = length category_columns;
          num_cols = length numeric_columns
      in case subplots num_rows num_cols (20, 15) of
           (fig, Inl e) \<Rightarrow> (Some e, plt @ [fig])
         | (fig, Inr axs) \<Rightarrow>
             (case for_each (\<lambda>(i, i_col).
                      for_each (categorical_vs_numeric_cell df plot_type pal axs i i_col)
                        (enumerate 0 numeric_columns))
                     (enumerate 0 category_columns) fig of
                (r, fig') \<Rightarrow> (r, plt @ [fig'])))"

subsection \<open>\<^verbatim>\<open>plot_category_count\<close>\<close>

definition plot_category_count ::
  "dataframe \<Rightarrow> string list \<Rightarrow> palette \<Rightarrow> rat \<times> rat \<Rightarrow> rat \<Rightarrow> figure list action" where
  "plot_category_count df category_columns color_palette fsize alpha plt =
     (case subplots 1 (length category_columns) fsize of
        (fig, Inl e) \<Rightarrow> (Some e, plt @ [fig])
      | (fig, Inr axs) \<Rightarrow>
          (case for_each (\<lambda>(i, category).
                   run [
                     call (getitem axs i) (countplot category df color_palette alpha),
                     call (getitem axs i) (set_title (Some (category @ '' Count''))),
                     call (getitem axs i) (set_xlabel (Some category)),
                     call (getitem axs i) (set_ylabel (Some ''Count''))])
                  (enumerate 0 category_columns) fig of
             (r, fig') \<Rightarrow> (r, plt @ [fig'])))"

subsection \<open>\<^verbatim>\<open>plot_category_proportions\<close>\<close>

text \<open>\<^verbatim>\<open>for p in target.patches: ...\<close>\<close>

definition for_patches :: "error + handle \<Rightarrow> (patch \<Rightarrow> figure action) \<Rightarrow> figure action" where
  "for_patches target body fig =
     (case target of
        Inl e \<Rightarrow> (Some e, fig)
      | Inr (AxesArray hs) \<Rightarrow> (Some (AttributeError ''numpy.ndarray object''), fig)
      | Inr (Axes pos) \<Rightarrow> for_each body (patches (panel_at fig pos)) fig)"

text \<open>
  The percentages of a column:
  \<^verbatim>\<open>proportions = df[category].value_counts(normalize=True) * 100\<close>, then
  \<^verbatim>\<open>proportions = proportions.sort_index()\<close>.
\<close>

definition proportions_of :: "dataframe \<Rightarrow> string \<Rightarrow> error + (cell \<times> rat) list" where
  "proportions_of df category =
     bind_result (getcol df category)
       (\<lambda>col. sort_index (times (value_counts_normalize col) 100))"

definition category_proportions_panel ::
  "dataframe \<Rightarrow> palette \<Rightarrow> handle \<Rightarrow> nat \<times> string \<Rightarrow> figure action" where
  "category_proportions_panel df color_palette axs = (\<lambda>(i, category) fig.
     case proportions_of df category of
       Inl e \<Rightarrow> (Some e, fig)
     | Inr proportions \<Rightarrow>
         run [
           call (getitem axs i)
             (barplot (proportions_frame proportions) ''category'' ''proportion''
                color_palette),
           for_patches (getitem axs i) (\<lambda>p.
             call (getitem axs i)
               (add_text (p_x p + p_width p / 2) (p_height p + 1)
                  (fmt_2f (p_height p) @ ''%'') ''center'')),
           call (getitem axs i) (set_title (Some (''Proportion of '' @ category))),
           call (getitem axs i) (set_xlabel (Some category)),
           call (getitem axs i) (set_ylabel (Some ''Proportion (%)'')),
           call (getitem axs i) (set_ylim 0 100),
           call (getitem axs i) (restyle_xticklabels 45 ''right'')] fig)"

definition plot_category_proportions ::
  "dataframe \<Rightarrow> string list \<Rightarrow> palette \<Rightarrow> rat \<times> rat \<Rightarrow> figure list action" where
  "plot_category_proportions df category_columns color_palette fsize plt =
     (let num_subplots = length category_columns
      in case subplots 1 num_subplots fsize of
           (fig, Inl e) \<Rightarrow> (Some e, plt @ [fig])
         | (fig, Inr axs0) \<Rightarrow>
             (let axs = (if num_subplots = 1 then AxesArray [axs0] else axs0)
              in case for_each (category_proportions_panel df color_palette axs)
                        (enumerate 0 category_columns) fig of
                   (r, fig') \<Rightarrow> (r, plt @ [fig'])))"

subsection \<open>\<^verbatim>\<open>plot_histograms\<close>\<close>

definition histograms_panel ::
  "dataframe \<Rightarrow> stats_table \<Rightarrow> palette \<Rightarrow> int \<Rightarrow> rat \<Rightarrow> string \<Rightarrow> bool \<Rightarrow> handle \<Rightarrow>
   nat \<times> string \<Rightarrow> figure action" where
  "histograms_panel df numerical_stats color_palette bins alpha color kde ax = (\<lambda>(i, col).
     run [
       call (getitem ax i)
         (histplot \<lparr>h_data = df, h_x = col, h_hue = None, h_palette = color_palette,
                    h_bins = bins, h_multiple = Layer, h_alpha = Some alpha,
                    h_color = Some color, h_kde = kde\<rparr>),
       call (getitem ax i) (set_line_color 0 ''#4c36f5''),
       call (getitem ax i)
         (axvline (loc numerical_stats ''25%'' col) ''#f26a02'' ''dashed'' (5 / 2) ''Q1''),
       call (getitem ax i)
         (axvline (loc numerical_stats ''75%'' col) ''#bd00b0'' ''dashed'' (5 / 2) ''Q3''),
       call (getitem ax i)
         (axvline (loc numerical_stats ''mean'' col) ''#f75c6b'' ''dashed'' (5 / 2) ''Mean''),
       call (getitem ax i) show_legend])"

definition plot_histograms ::
  "dataframe \<Rightarrow> stats_table \<Rightarrow> palette \<Rightarrow> rat \<times> rat \<Rightarrow> int \<Rightarrow> rat \<Rightarrow> string \<Rightarrow> bool \<Rightarrow>
   figure list action" where
  "plot_histograms df numerical_stats color_palette fsize bins alpha color kde plt =
     (case subplots 1 (length (map fst numerical_stats)) fsize of
        (fig, Inl e) \<Rightarrow> (Some e, plt @ [fig])
      | (fig, Inr ax) \<Rightarrow>
          (case for_each
                  (histograms_panel df numerical_stats color_palette bins alpha color kde ax)
                  (enumerate 0 (map fst numerical_stats)) fig of
             (r, fig') \<Rightarrow> (r, plt @ [fig'])))"

subsection \<open>\<^verbatim>\<open>plot_distributions\<close>\<close>

definition distributions_cell ::
  "dataframe \<Rightarrow> palette \<Rightarrow> handle \<Rightarrow> nat \<Rightarrow> string \<Rightarrow> nat \<times> string \<Rightarrow> figure action" where
  "distributions_cell df pal axs i i_col = (\<lambda>(j, j_col).
     run [
       call (getitem_chain axs i j)
         (histplot \<lparr>h_data = df, h_x = j_col, h_hue = Some i_col, h_palette = pal,
                    h_bins = 40, h_multiple = (if (1 :: int) = 2 then Stack else Dodge),
                    h_alpha = None, h_color = None, h_kde = True\<rparr>),
       call (getitem_chain axs i j) (set_title (if i = 0 then Some j_col else None)),
       call (getitem_tuple axs i j) (set_xlabel None),
       call (getitem_tuple axs i j) (set_ylabel None)])"

definition plot_distributions ::
  "dataframe \<Rightarrow> string list \<Rightarrow> string list \<Rightarrow> palette \<Rightarrow> figure list action" where
  "plot_distributions df category_columns numeric_columns pal plt =
     (let num_rows = length category_columns;
          num_cols = length numeric_columns
      in case subplots num_rows num_cols (20, 15) of
           (fig, Inl e) \<Rightarrow> (Some e, plt @ [fig])
         | (fig, Inr axs) \<Rightarrow>
             (case for_each (\<lambda>(i, i_col).
                      for_each (distributions_cell df pal axs i i_col)
                        (enumerate 0 numeric_columns))
                     (enumerate 0 category_columns) fig of
                (r, fig') \<Rightarrow> (r, plt @ [fig'])))"

subsection \<open>\<^verbatim>\<open>plot_distribution_specie\<close>\<close>

definition distribution_specie_cell ::
  "dataframe \<Rightarrow> string list \<Rightarrow> palette \<Rightarrow> int \<Rightarrow> handle \<Rightarrow> nat \<Rightarrow> string \<Rightarrow>
   nat \<times> string \<Rightarrow> figure action" where
  "distribution_specie_cell species_data numeric_columns penguin_color bins axs i i_col =
     (\<lambda>(j, j_col).
     run [
       call (getitem_chain axs i j)
         (histplot \<lparr>h_data = species_data, h_x = i_col, h_hue = Some j_col,
                    h_palette = penguin_color, h_bins = bins, h_multiple = Layer,
                    h_alpha = None, h_color = None, h_kde = True\<rparr>),
       if j = 0 then
         call (getitem_chain axs i j) (set_ylabel_styled (Some (numeric_columns ! i)) 60 0)
       else call (getitem_chain axs i j) (set_ylabel None),
       call (getitem_chain axs i j) (set_xlabel None)])"

text \<open>\<^verbatim>\<open>fig.suptitle(s)\<close> and \<^verbatim>\<open>plt.subplots_adjust(top=t)\<close> on the figure just made.\<close>

definition set_suptitle :: "string \<Rightarrow> figure action" where
  "set_suptitle s fig = (None, fig\<lparr>suptitle := Some s\<rparr>)"

definition subplots_adjust :: "rat \<Rightarrow> figure action" where
  "subplots_adjust t fig = (None, fig\<lparr>subplots_top := Some t\<rparr>)"

definition plot_distribution_specie ::
  "dataframe \<Rightarrow> string list \<Rightarrow> string list \<Rightarrow> string \<Rightarrow> palette \<Rightarrow> int \<Rightarrow>
   figure list action" where
  "plot_distribution_specie df numeric_columns category_columns species penguin_color bins plt =
     (case select_eq df ''species'' species of
        Inl e \<Rightarrow> (Some e, plt)
      | Inr species_data \<Rightarrow>
          (let num_rows = length numeric_columns;
               num_cols = length category_columns
           in case subplots num_rows num_cols (15, 13) of
                (fig, Inl e) \<Rightarrow> (Some e, plt @ [fig])
              | (fig, Inr axs) \<Rightarrow>
                  (case run [
                          for_each (\<lambda>(i, i_col).
                            for_each
                              (distribution_specie_cell species_data numeric_columns
                                 penguin_color bins axs i i_col)
                              (enumerate 0 category_columns))
                            (enumerate 0 numeric_columns),
                          set_suptitle (species @ '' Species''),
                          subplots_adjust (19 / 20)] fig of
                     (r, fig') \<Rightarrow> (r, plt @ [fig']))))"

section \<open>Sample inputs\<close>

text \<open>A few rows in the shape of the Palmer penguins table, one of them without a sex.\<close>

definition penguins_sample :: dataframe where
  "penguins_sample =
     \<lparr>columns = [''species'', ''island'', ''sex'', ''bill_length_mm'', ''body_mass_g'',
                 ''flipper_length_mm''],
      rows = [
        [(''species'', Str ''Adelie''), (''island'', Str ''Torgersen''),
         (''sex'', Str ''Male''), (''bill_length_mm'', Num (391 / 10)),
         (''body_mass_g'', Num 3750), (''flipper_length_mm'', Num 181)],
        [(''species'', Str ''Gentoo''), (''island'', Str ''Biscoe''), (''sex'', NaN),
         (''bill_length_mm'', Num (461 / 10)), (''body_mass_g'', Num 4500),
         (''flipper_length_mm'', Num 217)],
        [(''species'', Str ''Adelie''), (''island'', Str ''Dream''),
         (''sex'', Str ''Female''), (''bill_length_mm'', Num (395 / 10)),
         (''body_mass_g'', NaN), (''flipper_length_mm'', Num 186)],
        [(''species'', Str ''Adelie''), (''island'', Str ''Dream''),
         (''sex'', Str ''Male''), (''bill_length_mm'', Num (402 / 10)),
         (''body_mass_g'', Num 3800), (''flipper_length_mm'', Num 190)]]\<rparr>"

definition stats_sample :: stats_table where
  "stats_sample =
     [(''bill_length_mm'', [(''mean'', 439 / 10), (''25%'', 392 / 10), (''75%'', 485 / 10)]),
      (''body_mass_g'', [(''mean'', 4200), (''25%'', 3550), (''75%'', 4750)])]"

text \<open>A table with the column \<^verbatim>\<open>sex\<close> and no rows.\<close>

definition empty_sample :: dataframe where
  "empty_sample = \<lparr>columns = [''sex''], rows = []\<rparr>"

text \<open>A table whose column \<^verbatim>\<open>tag\<close> holds a string in one row and a number in the other.\<close>

definition mixed_sample :: dataframe where
  "mixed_sample = \<lparr>columns = [''tag''], rows = [[(''tag'', Str ''a'')], [(''tag'', Num 1)]]\<rparr>"

definition blank_figure :: "rat \<times> rat \<Rightarrow> nat \<Rightarrow> nat \<Rightarrow> figure" where
  "blank_figure fsize r c =
     \<lparr>figsize = fsize, panels = replicate r (replicate c empty_axes), suptitle = None,
      subplots_top = None\<rparr>"

section \<open>Blocks and loops\<close>

lemma run_Nil: "run [] s = (None, s)"
  by (simp add: run_def)

lemma run_Cons:
  "run (a # as) s = (case a s of (Some e, s') \<Rightarrow> (Some e, s') | (None, s') \<Rightarrow> run as s')"
  by (simp add: run_def split: prod.splits option.splits)

lemma for_each_fold:
  assumes "Inv s"
    and "\<And>z t. z \<in> set zs \<Longrightarrow> Inv t \<Longrightarrow> body z t = (None, upd z t) \<and> Inv (upd z t)"
  shows "for_each body zs s = (None, fold upd zs s) \<and> Inv (fold upd zs s)"
  using assms by (induction zs arbitrary: s) auto

lemma for_each_NoneD:
  "for_each body zs s = (None, s') \<Longrightarrow> z \<in> set zs \<Longrightarrow> \<exists>t t'. body z t = (None, t')"
proof (induction zs arbitrary: s)
  case Nil
  then show ?case by simp
next
  case (Cons a zs)
  then show ?case
    by (cases "body a s") (auto split: option.splits)
qed

lemma fold_enumerate_update:
  "fold (\<lambda>(k, x) L. L[k := G k x (L ! k)]) (enumerate n xs) L =
   map (\<lambda>(k, a). if n \<le> k \<and> k < n + length xs then G k (xs ! (k - n)) a else a)
     (enumerate 0 L)"
proof (induction xs arbitrary: n L)
  case Nil
  show ?case by (rule nth_equalityI) (auto simp add: nth_enumerate_eq)
next
  case (Cons x xs)
  have "map (\<lambda>(k, a). if Suc n \<le> k \<and> k < Suc n + length xs
                        then G k (xs ! (k - Suc n)) a else a)
          (enumerate 0 (L[n := G n x (L ! n)])) =
        map (\<lambda>(k, a). if n \<le> k \<and> k < n + length (x # xs)
                        then G k ((x # xs) ! (k - n)) a else a)
          (enumerate 0 L)"
  proof (rule nth_equalityI)
    fix k
    assume "k < length (map (\<lambda>(k, a). if Suc n \<le> k \<and> k < Suc n + length xs
                        then G k (xs ! (k - Suc n)) a else a)
          (enumerate 0 (L[n := G n x (L ! n)])))"
    then have k: "k < length L" by simp
    show "map (\<lambda>(k, a). if Suc n \<le> k \<and> k < Suc n + length xs
                        then G k (xs ! (k - Suc n)) a else a)
          (enumerate 0 (L[n := G n x (L ! n)])) ! k =
        map (\<lambda>(k, a). if n \<le> k \<and> k < n + length (x # xs)
                        then G k ((x # xs) ! (k - n)) a else a)
          (enumerate 0 L) ! k"
    proof (cases "k = n")
      case True
      with k show ?thesis by (simp add: nth_enumerate_eq)
    next
      case False
      with k show ?thesis
        by (auto simp add: nth_enumerate_eq nth_Cons' Suc_diff_Suc)
    qed
  qed simp
  then show ?case by (simp add: Cons)
qed

lemma fold_enumerate_update_0:
  "fold (\<lambda>(k, x) L. L[k := G k x (L ! k)]) (enumerate 0 xs) L =
   map (\<lambda>(k, a). if k < length xs then G k (xs ! k) a else a) (enumerate 0 L)"
  by (simp add: fold_enumerate_update cong: if_cong)

lemma call_Axes:
  "call (Inr (Axes p)) m fig =
     (case m (panel_at fig p) of Inl e \<Rightarrow> (Some e, fig) | Inr a \<Rightarrow> (None, put_panel fig p a))"
  by (simp add: call_def)

lemma panel_at_put_panel:
  "grid_shape r c fig \<Longrightarrow> i < r \<Longrightarrow> j < c \<Longrightarrow> panel_at (put_panel fig (i, j) a) (i, j) = a"
  by (simp add: grid_shape_def panel_at_def put_panel_def)

lemma put_panel_twice: "put_panel (put_panel fig p a) p b = put_panel fig p b"
  by (cases "fst p < length (panels fig)") (simp_all add: put_panel_def list_update_beyond)

lemma grid_shape_put_panel: "grid_shape r c fig \<Longrightarrow> grid_shape r c (put_panel fig p a)"
  by (cases "fst p < length (panels fig)")
     (auto simp add: grid_shape_def put_panel_def nth_list_update list_update_beyond)

lemma fold_put_panel_row:
  "fold (\<lambda>(j, x) t. put_panel t (i, j) (F j x (panel_at t (i, j)))) zs fig =
   fig\<lparr>panels := (panels fig)[i := fold (\<lambda>(j, x) row. row[j := F j x (row ! j)]) zs
                                      (panels fig ! i)]\<rparr>"
proof (induction zs arbitrary: fig)
  case Nil
  show ?case by simp
next
  case (Cons z zs)
  show ?case
    by (cases z; cases "i < length (panels fig)")
       (simp_all add: Cons, simp_all add: put_panel_def panel_at_def list_update_beyond)
qed

lemma row_loop:
  assumes shape: "grid_shape r c fig"
    and body: "\<And>j t. j < length xs \<Longrightarrow> grid_shape r c t \<Longrightarrow>
             body (j, xs ! j) t = (None, put_panel t (i, j) (F j (xs ! j) (panel_at t (i, j))))"
  shows "for_each body (enumerate 0 xs) fig =
         (None, fig\<lparr>panels := (panels fig)[i :=
            map (\<lambda>(j, a). if j < length xs then F j (xs ! j) a else a)
              (enumerate 0 (panels fig ! i))]\<rparr>)"
proof -
  let ?upd = "\<lambda>(j, x) t. put_panel t (i, j) (F j x (panel_at t (i, j)))"
  have "for_each body (enumerate 0 xs) fig = (None, fold ?upd (enumerate 0 xs) fig)
        \<and> grid_shape r c (fold ?upd (enumerate 0 xs) fig)"
  proof (rule for_each_fold [where Inv = "grid_shape r c"])
    show "grid_shape r c fig" by (rule shape)
  next
    fix z t
    assume z: "z \<in> set (enumerate 0 xs)" and t: "grid_shape r c t"
    obtain j x where "z = (j, x)" by (cases z)
    with z have "j < length xs" and "x = xs ! j" and "z = (j, xs ! j)"
      by (simp_all add: in_set_enumerate_eq)
    with t show "body z t = (None, ?upd z t) \<and> grid_shape r c (?upd z t)"
      by (simp add: body grid_shape_put_panel)
  qed
  then show ?thesis
    by (simp add: fold_put_panel_row fold_enumerate_update_0)
qed

lemma fold_panels:
  "fold (\<lambda>(i, y) t. t\<lparr>panels := U i y (panels t)\<rparr>) zs fig =
   fig\<lparr>panels := fold (\<lambda>(i, y). U i y) zs (panels fig)\<rparr>"
  by (induction zs arbitrary: fig) (auto simp add: split_def)

lemma grid_loop:
  assumes shape: "grid_shape r c fig"
    and len: "\<And>i y row. length (H i y row) = length row"
    and inner: "\<And>i t. i < length ys \<Longrightarrow> grid_shape r c t \<Longrightarrow>
             inner (i, ys ! i) t = (None, t\<lparr>panels := (panels t)[i := H i (ys ! i) (panels t ! i)]\<rparr>)"
  shows "for_each inner (enumerate 0 ys) fig =
         (None, fig\<lparr>panels := map (\<lambda>(i, row). if i < length ys then H i (ys ! i) row else row)
                                 (enumerate 0 (panels fig))\<rparr>)"
proof -
  let ?upd = "\<lambda>(i, y) t. t\<lparr>panels := (panels t)[i := H i y (panels t ! i)]\<rparr>"
  have "for_each inner (enumerate 0 ys) fig = (None, fold ?upd (enumerate 0 ys) fig)
        \<and> grid_shape r c (fold ?upd (enumerate 0 ys) fig)"
  proof (rule for_each_fold [where Inv = "grid_shape r c"])
    show "grid_shape r c fig" by (rule shape)
  next
    fix z t
    assume z: "z \<in> set (enumerate 0 ys)" and t: "grid_shape r c t"
    obtain i y where "z = (i, y)" by (cases z)
    with z have "i < length ys" and "y = ys ! i" and "z = (i, ys ! i)"
      by (simp_all add: in_set_enumerate_eq)
    with t show "inner z t = (None, ?upd z t) \<and> grid_shape r c (?upd z t)"
      by (cases "i < length (panels t)")
         (auto simp add: inner grid_shape_def nth_list_update len list_update_beyond)
  qed
  then show ?thesis
    using fold_panels [of "\<lambda>i y P. P[i := H i y (P ! i)]" "enumerate 0 ys" fig]
          fold_enumerate_update_0 [of H ys "panels fig"]
    by simp
qed

lemma subplots_unfold:
  "subplots nrows ncols fsize =
     (if nrows = 0 then
        (new_figure fsize, Inl (ValueError ''Number of rows must be a positive integer, not 0''))
      else if ncols = 0 then
        (new_figure fsize,
         Inl (ValueError ''Number of columns must be a positive integer, not 0''))
      else
        (\<lparr>figsize = fsize, panels = replicate nrows (replicate ncols empty_axes),
          suptitle = None, subplots_top = None\<rparr>,
         Inr (if nrows = 1 \<and> ncols = 1 then Axes (0, 0)
              else if nrows = 1 then AxesArray (map (\<lambda>j. Axes (0, j)) [0..<ncols])
              else if ncols = 1 then AxesArray (map (\<lambda>i. Axes (i, 0)) [0..<nrows])
              else AxesArray (map (\<lambda>i. AxesArray (map (\<lambda>j. Axes (i, j)) [0..<ncols]))
                     [0..<nrows]))))"
  by (simp add: subplots_def Let_def new_figure_def)

lemma subplots_grid_handle:
  assumes "2 \<le> r" and "2 \<le> c"
  shows "\<exists>axs. subplots r c fs = (blank_figure fs r c, Inr axs)
           \<and> (\<forall>i<r. \<forall>j<c. getitem_chain axs i j = Inr (Axes (i, j))
                              \<and> getitem_tuple axs i j = Inr (Axes (i, j)))"
proof -
  let ?axs = "AxesArray (map (\<lambda>i. AxesArray (map (\<lambda>j. Axes (i, j)) [0..<c])) [0..<r])"
  from assms have "subplots r c fs = (blank_figure fs r c, Inr ?axs)"
    by (simp add: subplots_unfold blank_figure_def)
  moreover have chain: "getitem_chain ?axs i j = Inr (Axes (i, j))" if "i < r" and "j < c" for i j
    using that by (simp add: getitem_chain_def bind_result_def)
  moreover have "getitem_tuple ?axs i j = Inr (Axes (i, j))" if "i < r" and "j < c" for i j
  proof -
    from assms have "[0..<r] = 0 # [1..<r]" by (simp add: upt_conv_Cons)
    then have "getitem_tuple ?axs i j = getitem_chain ?axs i j" by simp
    with that show ?thesis by (simp add: chain)
  qed
  ultimately show ?thesis by blast
qed

lemma subplots_chain_D:
  assumes "subplots r c fs = (fig, Inr axs)" and "getitem_chain axs i j = Inr h"
  shows "2 \<le> r \<and> 2 \<le> c"
  using assms
  by (auto simp add: subplots_unfold getitem_chain_def bind_result_def
      split: if_splits sum.splits)

lemma subplots_tuple_D:
  assumes "subplots r c fs = (fig, Inr axs)" and "getitem_tuple axs i j = Inr h"
  shows "2 \<le> r \<and> 2 \<le> c"
proof -
  have "getitem_tuple (AxesArray (map f [0..<n])) i j = Inl (IndexError ''too many indices for array'')"
    if "\<And>k. \<exists>p. f k = Axes p" for f :: "nat \<Rightarrow> handle" and n
  proof (cases n)
    case 0
    then show ?thesis by simp
  next
    case (Suc m)
    then have upt: "[0..<n] = 0 # [1..<n]" by (simp add: upt_conv_Cons)
    from that obtain p where "f 0 = Axes p" by blast
    with upt show ?thesis by simp
  qed
  note one_dim = this
  show ?thesis
    using assms one_dim [of "\<lambda>j. Axes (0, j)" c] one_dim [of "\<lambda>i. Axes (i, 0)" r]
    by (auto simp add: subplots_unfold split: if_splits)
qed

lemma grid_shape_blank: "grid_shape r c (blank_figure fs r c)"
  by (simp add: grid_shape_def blank_figure_def)

lemma check_vars_ok: "check_vars df vars = Inr () \<longleftrightarrow> set vars \<subseteq> set (columns df)"
proof -
  have "check_vars df vars = Inr () \<longleftrightarrow> filter (\<lambda>v. v \<notin> set (columns df)) vars = []"
    by (simp add: check_vars_def split: list.splits)
  then show ?thesis by (auto simp add: filter_empty_conv)
qed

lemma categorical_vs_numeric_cell_ok:
  assumes "getitem_chain axs i j = Inr (Axes (i, j))"
    and "getitem_tuple axs i j = Inr (Axes (i, j))"
    and "grid_shape r c t" and "i < r" and "j < c"
    and "plot_type = ''violin'' \<or> plot_type = ''box''"
    and "''species'' \<in> set (columns df)" and "i_col \<in> set (columns df)"
    and "j_col \<in> set (columns df)"
  shows "categorical_vs_numeric_cell df plot_type pal axs i i_col (j, j_col) t =
         (None, put_panel t (i, j)
            ((\<lambda>a. a\<lparr>artists := artists a @
                        [if plot_type = ''violin''
                         then Violinplot (i = 2) df ''species'' j_col i_col pal
                         else Boxplot df ''species'' j_col i_col pal],
                      title := (if i = 0 then j_col else []), xlabel := [], ylabel := []\<rparr>)
             (panel_at t (i, j))))"
proof -
  have ok: "check_vars df [''species'', j_col, i_col] = Inr ()"
    using assms by (simp add: check_vars_ok)
  from assms(6) show ?thesis
  proof
    assume "plot_type = ''violin''"
    then show ?thesis
      using assms(1-5) ok
      by (simp add: categorical_vs_numeric_cell_def run_Cons run_Nil call_Axes violinplot_def
          bind_result_def record_call_def set_title_def set_xlabel_def set_ylabel_def
          text_of_def panel_at_put_panel put_panel_twice)
  next
    assume "plot_type = ''box''"
    then show ?thesis
      using assms(1-5) ok
      by (simp add: categorical_vs_numeric_cell_def run_Cons run_Nil call_Axes boxplot_def
          bind_result_def record_call_def set_title_def set_xlabel_def set_ylabel_def
          text_of_def panel_at_put_panel put_panel_twice)
  qed
qed

lemma filled_grid:
  "map (\<lambda>(i, row). if i < r then map (\<lambda>(j, a). if j < c then F i j a else a) (enumerate 0 row)
                     else row)
     (enumerate 0 (replicate r (replicate c e))) =
   map (\<lambda>i. map (\<lambda>j. F i j e) [0..<c]) [0..<r]"
  by (auto intro!: nth_equalityI simp add: nth_enumerate_eq)

lemma call_NoneD:
  assumes "call target m t = (None, t')"
  obtains p a where "target = Inr (Axes p)" and "m (panel_at t p) = Inr a"
    and "t' = put_panel t p a"
  using assms by (auto simp add: call_def split: sum.splits handle.splits)

lemma run_Cons_NoneD:
  assumes "run (a # as) s = (None, s')"
  obtains s1 where "a s = (None, s1)" and "run as s1 = (None, s')"
  using assms by (auto simp add: run_Cons split: prod.splits option.splits)

lemma nested_loop:
  assumes cell: "\<And>i j t. i < length ys \<Longrightarrow> j < length xs \<Longrightarrow>
             grid_shape (length ys) (length xs) t \<Longrightarrow>
             cell i (ys ! i) (j, xs ! j) t =
               (None, put_panel t (i, j) (F i j (panel_at t (i, j))))"
  shows "for_each (\<lambda>(i, y). for_each (cell i y) (enumerate 0 xs)) (enumerate 0 ys)
           (blank_figure fs (length ys) (length xs)) =
         (None, (blank_figure fs (length ys) (length xs))
            \<lparr>panels := map (\<lambda>i. map (\<lambda>j. F i j empty_axes) [0..<length xs])
                          [0..<length ys]\<rparr>)"
proof -
  let ?r = "length ys" and ?c = "length xs"
  have inner: "for_each (cell i (ys ! i)) (enumerate 0 xs) t =
               (None, t\<lparr>panels := (panels t)[i :=
                  map (\<lambda>(j, a). if j < ?c then F i j a else a) (enumerate 0 (panels t ! i))]\<rparr>)"
    if "i < ?r" and "grid_shape ?r ?c t" for i t
  proof (rule row_loop [where F = "\<lambda>j x. F i j", OF that(2)])
    fix j u
    assume "j < ?c" and "grid_shape ?r ?c u"
    with that(1) show "cell i (ys ! i) (j, xs ! j) u =
        (None, put_panel u (i, j) (F i j (panel_at u (i, j))))"
      by (rule cell)
  qed
  have "for_each (\<lambda>(i, y). for_each (cell i y) (enumerate 0 xs)) (enumerate 0 ys)
          (blank_figure fs ?r ?c) =
        (None, (blank_figure fs ?r ?c)\<lparr>panels :=
           map (\<lambda>(i, row). if i < ?r
                 then map (\<lambda>(j, a). if j < ?c then F i j a else a) (enumerate 0 row)
                 else row)
             (enumerate 0 (panels (blank_figure fs ?r ?c)))\<rparr>)"
    by (rule grid_loop [where r = ?r and c = ?c and
          H = "\<lambda>i y row. map (\<lambda>(j, a). if j < ?c then F i j a else a) (enumerate 0 row)"])
       (simp_all add: grid_shape_blank inner)
  then show ?thesis
    by (simp add: blank_figure_def filled_grid)
qed

lemma nested_loop_NoneD:
  assumes "for_each (\<lambda>(i, y). for_each (cell i y) (enumerate 0 xs)) (enumerate 0 ys) fig =
           (None, fig')"
    and "i < length ys" and "j < length xs"
  shows "\<exists>u u'. cell i (ys ! i) (j, xs ! j) u = (None, u')"
proof -
  from assms(2) have "(i, ys ! i) \<in> set (enumerate 0 ys)"
    by (simp add: in_set_enumerate_eq)
  from for_each_NoneD [OF assms(1) this] obtain t t'
    where "for_each (cell i (ys ! i)) (enumerate 0 xs) t = (None, t')"
    by auto
  moreover from assms(3) have "(j, xs ! j) \<in> set (enumerate 0 xs)"
    by (simp add: in_set_enumerate_eq)
  ultimately show ?thesis
    by (blast dest: for_each_NoneD)
qed

lemma categorical_vs_numeric_result:
  assumes "2 \<le> length category_columns" and "2 \<le> length numeric_columns"
    and "plot_type = ''violin'' \<or> plot_type = ''box''"
    and "''species'' \<in> set (columns df)"
    and "set category_columns \<subseteq> set (columns df)"
    and "set numeric_columns \<subseteq> set (columns df)"
  shows "plot_categorical_vs_numeric df category_columns numeric_columns plot_type pal plt =
    (None, plt @ [\<lparr>figsize = (20, 15),
       panels = map (\<lambda>i. map (\<lambda>j.
           empty_axes\<lparr>artists :=
               [if plot_type = ''violin''
                then Violinplot (i = 2) df ''species'' (numeric_columns ! j)
                       (category_columns ! i) pal
                else Boxplot df ''species'' (numeric_columns ! j) (category_columns ! i) pal],
             title := (if i = 0 then numeric_columns ! j else [])\<rparr>)
           [0..<length numeric_columns]) [0..<length category_columns],
       suptitle = None, subplots_top = None\<rparr>])"
proof -
  let ?r = "length category_columns" and ?c = "length numeric_columns"
  from subplots_grid_handle [OF assms(1,2), of "(20, 15)"] obtain axs
    where sub: "subplots ?r ?c (20, 15) = (blank_figure (20, 15) ?r ?c, Inr axs)"
      and chain: "\<And>i j. i < ?r \<Longrightarrow> j < ?c \<Longrightarrow> getitem_chain axs i j = Inr (Axes (i, j))"
      and tuple: "\<And>i j. i < ?r \<Longrightarrow> j < ?c \<Longrightarrow> getitem_tuple axs i j = Inr (Axes (i, j))"
    by blast
  have "for_each (\<lambda>(i, i_col).
            for_each (categorical_vs_numeric_cell df plot_type pal axs i i_col)
              (enumerate 0 numeric_columns))
          (enumerate 0 category_columns) (blank_figure (20, 15) ?r ?c) =
        (None, (blank_figure (20, 15) ?r ?c)\<lparr>panels :=
           map (\<lambda>i. map (\<lambda>j.
               (\<lambda>a. a\<lparr>artists := artists a @
                        [if plot_type = ''violin''
                         then Violinplot (i = 2) df ''species'' (numeric_columns ! j)
                                (category_columns ! i) pal
                         else Boxplot df ''species'' (numeric_columns ! j)
                                (category_columns ! i) pal],
                      title := (if i = 0 then numeric_columns ! j else []),
                      xlabel := [], ylabel := []\<rparr>) empty_axes)
             [0..<?c]) [0..<?r]\<rparr>)"
  proof (rule nested_loop)
    fix i j t
    assume "i < ?r" and "j < ?c" and "grid_shape ?r ?c t"
    with assms(3-6)
    show "categorical_vs_numeric_cell df plot_type pal axs i (category_columns ! i)
            (j, numeric_columns ! j) t =
          (None, put_panel t (i, j)
             ((\<lambda>a. a\<lparr>artists := artists a @
                        [if plot_type = ''violin''
                         then Violinplot (i = 2) df ''species'' (numeric_columns ! j)
                                (category_columns ! i) pal
                         else Boxplot df ''species'' (numeric_columns ! j)
                                (category_columns ! i) pal],
                      title := (if i = 0 then numeric_columns ! j else []),
                      xlabel := [], ylabel := []\<rparr>) (panel_at t (i, j))))"
      by (intro categorical_vs_numeric_cell_ok [where r = ?r and c = ?c] chain tuple)
         (auto simp add: subset_iff)
  qed
  then show ?thesis
    by (simp add: plot_categorical_vs_numeric_def sub Let_def blank_figure_def empty_axes_def)
qed

lemma categorical_vs_numeric_success_D:
  assumes "fst (plot_categorical_vs_numeric df category_columns numeric_columns plot_type pal
             plt) = None"
  shows "2 \<le> length category_columns \<and> 2 \<le> length numeric_columns
       \<and> (plot_type = ''violin'' \<or> plot_type = ''box'')
       \<and> ''species'' \<in> set (columns df)
       \<and> set category_columns \<subseteq> set (columns df)
       \<and> set numeric_columns \<subseteq> set (columns df)"
proof -
  let ?r = "length category_columns" and ?c = "length numeric_columns"
  from assms obtain fig axs fig'
    where sub: "subplots ?r ?c (20, 15) = (fig, Inr axs)"
      and loop: "for_each (\<lambda>(i, i_col).
            for_each (categorical_vs_numeric_cell df plot_type pal axs i i_col)
              (enumerate 0 numeric_columns))
          (enumerate 0 category_columns) fig = (None, fig')"
    by (auto simp add: plot_categorical_vs_numeric_def Let_def
        split: sum.splits prod.splits)
  have cell: "(plot_type = ''violin'' \<or> plot_type = ''box'')
       \<and> (\<exists>h. getitem_chain axs i j = Inr h)
       \<and> {''species'', numeric_columns ! j, category_columns ! i} \<subseteq> set (columns df)"
    if "i < ?r" and "j < ?c" for i j
  proof -
    from nested_loop_NoneD [OF loop that] obtain u u'
      where "categorical_vs_numeric_cell df plot_type pal axs i (category_columns ! i)
               (j, numeric_columns ! j) u = (None, u')"
      by blast
    then show ?thesis
      by (auto simp add: categorical_vs_numeric_cell_def raise_def violinplot_def boxplot_def
          bind_result_def check_vars_ok
          elim!: run_Cons_NoneD call_NoneD split: if_splits sum.splits)
  qed
  from sub have pos: "0 < ?r" "0 < ?c"
    by (auto simp add: subplots_unfold split: if_splits)
  with cell [of 0 0] sub have "2 \<le> ?r \<and> 2 \<le> ?c"
    by (auto dest: subplots_chain_D)
  moreover from cell [of 0 0] pos have "plot_type = ''violin'' \<or> plot_type = ''box''"
    and "''species'' \<in> set (columns df)"
    by auto
  moreover have "set category_columns \<subseteq> set (columns df)"
    using cell [of _ 0] pos by (auto simp add: in_set_conv_nth)
  moreover have "set numeric_columns \<subseteq> set (columns df)"
    using cell [of 0] pos by (auto simp add: in_set_conv_nth)
  ultimately show ?thesis by blast
qed

lemma distributions_cell_ok:
  assumes "getitem_chain axs i j = Inr (Axes (i, j))"
    and "getitem_tuple axs i j = Inr (Axes (i, j))"
    and "grid_shape r c t" and "i < r" and "j < c"
    and "i_col \<in> set (columns df)" and "j_col \<in> set (columns df)"
  shows "distributions_cell df pal axs i i_col (j, j_col) t =
         (None, put_panel t (i, j)
            ((\<lambda>a. a\<lparr>artists := artists a @
                        [Histplot \<lparr>h_data = df, h_x = j_col, h_hue = Some i_col,
                           h_palette = pal, h_bins = 40, h_multiple = Dodge, h_alpha = None,
                           h_color = None, h_kde = True\<rparr>],
                      lines := lines a @
                        kde_curves \<lparr>h_data = df, h_x = j_col, h_hue = Some i_col,
                           h_palette = pal, h_bins = 40, h_multiple = Dodge, h_alpha = None,
                           h_color = None, h_kde = True\<rparr>,
                      title := (if i = 0 then j_col else []), xlabel := [], ylabel := []\<rparr>)
             (panel_at t (i, j))))"
proof -
  have ok: "check_vars df [j_col, i_col] = Inr ()"
    using assms by (simp add: check_vars_ok)
  with assms(1-5) show ?thesis
    by (simp add: distributions_cell_def run_Cons run_Nil call_Axes histplot_def
        bind_result_def record_call_def set_title_def set_xlabel_def set_ylabel_def
        text_of_def panel_at_put_panel put_panel_twice)
qed

lemma distributions_result:
  assumes "2 \<le> length category_columns" and "2 \<le> length numeric_columns"
    and "set category_columns \<subseteq> set (columns df)"
    and "set numeric_columns \<subseteq> set (columns df)"
  shows "plot_distributions df category_columns numeric_columns pal plt =
    (None, plt @ [\<lparr>figsize = (20, 15),
       panels = map (\<lambda>i. map (\<lambda>j.
           empty_axes\<lparr>artists :=
               [Histplot \<lparr>h_data = df, h_x = numeric_columns ! j,
                  h_hue = Some (category_columns ! i), h_palette = pal, h_bins = 40,
                  h_multiple = Dodge, h_alpha = None, h_color = None, h_kde = True\<rparr>],
             lines := kde_curves \<lparr>h_data = df, h_x = numeric_columns ! j,
                  h_hue = Some (category_columns ! i), h_palette = pal, h_bins = 40,
                  h_multiple = Dodge, h_alpha = None, h_color = None, h_kde = True\<rparr>,
             title := (if i = 0 then numeric_columns ! j else [])\<rparr>)
           [0..<length numeric_columns]) [0..<length category_columns],
       suptitle = None, subplots_top = None\<rparr>])"
proof -
  let ?r = "length category_columns" and ?c = "length numeric_columns"
  from subplots_grid_handle [OF assms(1,2), of "(20, 15)"] obtain axs
    where sub: "subplots ?r ?c (20, 15) = (blank_figure (20, 15) ?r ?c, Inr axs)"
      and chain: "\<And>i j. i < ?r \<Longrightarrow> j < ?c \<Longrightarrow> getitem_chain axs i j = Inr (Axes (i, j))"
      and tuple: "\<And>i j. i < ?r \<Longrightarrow> j < ?c \<Longrightarrow> getitem_tuple axs i j = Inr (Axes (i, j))"
    by blast
  have "for_each (\<lambda>(i, i_col).
            for_each (distributions_cell df pal axs i i_col) (enumerate 0 numeric_columns))
          (enumerate 0 category_columns) (blank_figure (20, 15) ?r ?c) =
        (None, (blank_figure (20, 15) ?r ?c)\<lparr>panels :=
           map (\<lambda>i. map (\<lambda>j.
               (\<lambda>a. a\<lparr>artists := artists a @
                        [Histplot \<lparr>h_data = df, h_x = numeric_columns ! j,
                           h_hue = Some (category_columns ! i), h_palette = pal, h_bins = 40,
                           h_multiple = Dodge, h_alpha = None, h_color = None,
                           h_kde = True\<rparr>],
                      lines := lines a @
                        kde_curves \<lparr>h_data = df, h_x = numeric_columns ! j,
                           h_hue = Some (category_columns ! i), h_palette = pal, h_bins = 40,
                           h_multiple = Dodge, h_alpha = None, h_color = None,
                           h_kde = True\<rparr>,
                      title := (if i = 0 then numeric_columns ! j else []),
                      xlabel := [], ylabel := []\<rparr>) empty_axes)
             [0..<?c]) [0..<?r]\<rparr>)"
  proof (rule nested_loop)
    fix i j t
    assume "i < ?r" and "j < ?c" and "grid_shape ?r ?c t"
    with assms(3,4)
    show "distributions_cell df pal axs i (category_columns ! i) (j, numeric_columns ! j) t =
          (None, put_panel t (i, j)
             ((\<lambda>a. a\<lparr>artists := artists a @
                        [Histplot \<lparr>h_data = df, h_x = numeric_columns ! j,
                           h_hue = Some (category_columns ! i), h_palette = pal, h_bins = 40,
                           h_multiple = Dodge, h_alpha = None, h_color = None,
                           h_kde = True\<rparr>],
                      lines := lines a @
                        kde_curves \<lparr>h_data = df, h_x = numeric_columns ! j,
                           h_hue = Some (category_columns ! i), h_palette = pal, h_bins = 40,
                           h_multiple = Dodge, h_alpha = None, h_color = None,
                           h_kde = True\<rparr>,
                      title := (if i = 0 then numeric_columns ! j else []),
                      xlabel := [], ylabel := []\<rparr>) (panel_at t (i, j))))"
      by (intro distributions_cell_ok [where r = ?r and c = ?c] chain tuple)
         (auto simp add: subset_iff)
  qed
  then show ?thesis
    by (simp add: plot_distributions_def sub Let_def blank_figure_def empty_axes_def)
qed

lemma distributions_success_D:
  assumes "fst (plot_distributions df category_columns numeric_columns pal plt) = None"
  shows "2 \<le> length category_columns \<and> 2 \<le> length numeric_columns
       \<and> set category_columns \<subseteq> set (columns df)
       \<and> set numeric_columns \<subseteq> set (columns df)"
proof -
  let ?r = "length category_columns" and ?c = "length numeric_columns"
  from assms obtain fig axs fig'
    where sub: "subplots ?r ?c (20, 15) = (fig, Inr axs)"
      and loop: "for_each (\<lambda>(i, i_col).
            for_each (distributions_cell df pal axs i i_col) (enumerate 0 numeric_columns))
          (enumerate 0 category_columns) fig = (None, fig')"
    by (auto simp add: plot_distributions_def Let_def split: sum.splits prod.splits)
  have cell: "(\<exists>h. getitem_chain axs i j = Inr h)
       \<and> {numeric_columns ! j, category_columns ! i} \<subseteq> set (columns df)"
    if "i < ?r" and "j < ?c" for i j
  proof -
    from nested_loop_NoneD [OF loop that] obtain u u'
      where "distributions_cell df pal axs i (category_columns ! i)
               (j, numeric_columns ! j) u = (None, u')"
      by blast
    then show ?thesis
      by (auto simp add: distributions_cell_def histplot_def bind_result_def check_vars_ok
          elim!: run_Cons_NoneD call_NoneD split: if_splits sum.splits)
  qed
  from sub have pos: "0 < ?r" "0 < ?c"
    by (auto simp add: subplots_unfold split: if_splits)
  with cell [of 0 0] sub have "2 \<le> ?r \<and> 2 \<le> ?c"
    by (auto dest: subplots_chain_D)
  moreover have "set category_columns \<subseteq> set (columns df)"
    using cell [of _ 0] pos by (auto simp add: in_set_conv_nth)
  moreover have "set numeric_columns \<subseteq> set (columns df)"
    using cell [of 0] pos by (auto simp add: in_set_conv_nth)
  ultimately show ?thesis by blast
qed

lemma select_eq_filter:
  "select_eq df c v =
     (if c \<in> set (columns df)
      then Inr (df\<lparr>rows := filter (\<lambda>r. cell_of r c = Str v) (rows df)\<rparr>)
      else Inl (KeyError c))"
proof -
  have "map snd (filter fst (zip (map (\<lambda>x. x = Str v) (map (\<lambda>r. cell_of r c) rs)) rs)) =
        filter (\<lambda>r. cell_of r c = Str v) rs" for rs
    by (induction rs) simp_all
  then show ?thesis by (simp add: select_eq_def getcol_def)
qed

lemma distribution_specie_cell_ok:
  assumes "getitem_chain axs i j = Inr (Axes (i, j))"
    and "grid_shape r c t" and "i < r" and "j < c"
    and "i_col \<in> set (columns data)" and "j_col \<in> set (columns data)"
  shows "distribution_specie_cell data numeric_columns pal bins axs i i_col (j, j_col) t =
         (None, put_panel t (i, j)
            ((\<lambda>a. a\<lparr>artists := artists a @
                        [Histplot \<lparr>h_data = data, h_x = i_col, h_hue = Some j_col,
                           h_palette = pal, h_bins = bins, h_multiple = Layer, h_alpha = None,
                           h_color = None, h_kde = True\<rparr>],
                      lines := lines a @
                        kde_curves \<lparr>h_data = data, h_x = i_col, h_hue = Some j_col,
                           h_palette = pal, h_bins = bins, h_multiple = Layer, h_alpha = None,
                           h_color = None, h_kde = True\<rparr>,
                      ylabel := (if j = 0 then numeric_columns ! i else []),
                      ylabel_style := (if j = 0 then Some (60, 0) else ylabel_style a),
                      xlabel := []\<rparr>)
             (panel_at t (i, j))))"
proof -
  have ok: "check_vars data [i_col, j_col] = Inr ()"
    using assms by (simp add: check_vars_ok)
  show ?thesis
  proof (cases "j = 0")
    case True
    with assms(1-4) ok show ?thesis
      by (simp add: distribution_specie_cell_def run_Cons run_Nil call_Axes histplot_def
          bind_result_def record_call_def set_ylabel_styled_def set_xlabel_def
          text_of_def panel_at_put_panel put_panel_twice)
  next
    case False
    with assms(1-4) ok show ?thesis
      by (simp add: distribution_specie_cell_def run_Cons run_Nil call_Axes histplot_def
          bind_result_def record_call_def set_xlabel_def set_ylabel_def
          text_of_def panel_at_put_panel put_panel_twice)
  qed
qed

lemma distribution_specie_result:
  assumes "2 \<le> length numeric_columns" and "2 \<le> length category_columns"
    and "''species'' \<in> set (columns df)"
    and "set numeric_columns \<subseteq> set (columns df)"
    and "set category_columns \<subseteq> set (columns df)"
  shows "plot_distribution_specie df numeric_columns category_columns species pal bins plt =
    (None, plt @ [\<lparr>figsize = (15, 13),
       panels = map (\<lambda>i. map (\<lambda>j.
           empty_axes\<lparr>artists :=
               [Histplot \<lparr>h_data = df\<lparr>rows := filter (\<lambda>r. cell_of r ''species'' = Str species)
                                                (rows df)\<rparr>,
                  h_x = numeric_columns ! i, h_hue = Some (category_columns ! j),
                  h_palette = pal, h_bins = bins, h_multiple = Layer, h_alpha = None,
                  h_color = None, h_kde = True\<rparr>],
             lines := kde_curves
                \<lparr>h_data = df\<lparr>rows := filter (\<lambda>r. cell_of r ''species'' = Str species)
                                       (rows df)\<rparr>,
                  h_x = numeric_columns ! i, h_hue = Some (category_columns ! j),
                  h_palette = pal, h_bins = bins, h_multiple = Layer, h_alpha = None,
                  h_color = None, h_kde = True\<rparr>,
             ylabel := (if j = 0 then numeric_columns ! i else []),
             ylabel_style := (if j = 0 then Some (60, 0) else None)\<rparr>)
           [0..<length category_columns]) [0..<length numeric_columns],
       suptitle = Some (species @ '' Species''), subplots_top = Some (19 / 20)\<rparr>])"
proof -
  let ?r = "length numeric_columns" and ?c = "length category_columns"
  let ?data = "df\<lparr>rows := filter (\<lambda>r. cell_of r ''species'' = Str species) (rows df)\<rparr>"
  from subplots_grid_handle [OF assms(1,2), of "(15, 13)"] obtain axs
    where sub: "subplots ?r ?c (15, 13) = (blank_figure (15, 13) ?r ?c, Inr axs)"
      and chain: "\<And>i j. i < ?r \<Longrightarrow> j < ?c \<Longrightarrow> getitem_chain axs i j = Inr (Axes (i, j))"
    by blast
  have "for_each (\<lambda>(i, i_col).
            for_each (distribution_specie_cell ?data numeric_columns pal bins axs i i_col)
              (enumerate 0 category_columns))
          (enumerate 0 numeric_columns) (blank_figure (15, 13) ?r ?c) =
        (None, (blank_figure (15, 13) ?r ?c)\<lparr>panels :=
           map (\<lambda>i. map (\<lambda>j.
               (\<lambda>a. a\<lparr>artists := artists a @
                        [Histplot \<lparr>h_data = ?data, h_x = numeric_columns ! i,
                           h_hue = Some (category_columns ! j), h_palette = pal,
                           h_bins = bins, h_multiple = Layer, h_alpha = None,
                           h_color = None, h_kde = True\<rparr>],
                      lines := lines a @
                        kde_curves \<lparr>h_data = ?data, h_x = numeric_columns ! i,
                           h_hue = Some (category_columns ! j), h_palette = pal,
                           h_bins = bins, h_multiple = Layer, h_alpha = None,
                           h_color = None, h_kde = True\<rparr>,
                      ylabel := (if j = 0 then numeric_columns ! i else []),
                      ylabel_style := (if j = 0 then Some (60, 0) else ylabel_style a),
                      xlabel := []\<rparr>)
                 empty_axes)
             [0..<?c]) [0..<?r]\<rparr>)"
  proof (rule nested_loop)
    fix i j t
    assume "i < ?r" and "j < ?c" and "grid_shape ?r ?c t"
    with assms(4,5)
    show "distribution_specie_cell ?data numeric_columns pal bins axs i (numeric_columns ! i)
            (j, category_columns ! j) t =
          (None, put_panel t (i, j)
             ((\<lambda>a. a\<lparr>artists := artists a @
                        [Histplot \<lparr>h_data = ?data, h_x = numeric_columns ! i,
                           h_hue = Some (category_columns ! j), h_palette = pal,
                           h_bins = bins, h_multiple = Layer, h_alpha = None,
                           h_color = None, h_kde = True\<rparr>],
                      lines := lines a @
                        kde_curves \<lparr>h_data = ?data, h_x = numeric_columns ! i,
                           h_hue = Some (category_columns ! j), h_palette = pal,
                           h_bins = bins, h_multiple = Layer, h_alpha = None,
                           h_color = None, h_kde = True\<rparr>,
                      ylabel := (if j = 0 then numeric_columns ! i else []),
                      ylabel_style := (if j = 0 then Some (60, 0) else ylabel_style a),
                      xlabel := []\<rparr>)
              (panel_at t (i, j))))"
      by (intro distribution_specie_cell_ok [where r = ?r and c = ?c] chain)
         (auto simp add: subset_iff)
  qed
  with assms(3) show ?thesis
    by (simp add: plot_distribution_specie_def select_eq_filter sub Let_def blank_figure_def
        empty_axes_def run_Cons run_Nil set_suptitle_def subplots_adjust_def)
qed

lemma distribution_specie_success_D:
  assumes "fst (plot_distribution_specie df numeric_columns category_columns species pal bins
             plt) = None"
  shows "2 \<le> length numeric_columns \<and> 2 \<le> length category_columns
       \<and> ''species'' \<in> set (columns df)
       \<and> set numeric_columns \<subseteq> set (columns df)
       \<and> set category_columns \<subseteq> set (columns df)"
proof -
  let ?r = "length numeric_columns" and ?c = "length category_columns"
  let ?data = "df\<lparr>rows := filter (\<lambda>r. cell_of r ''species'' = Str species) (rows df)\<rparr>"
  from assms have sp: "''species'' \<in> set (columns df)"
    by (auto simp add: plot_distribution_specie_def select_eq_filter split: if_splits)
  with assms obtain fig axs fig'
    where sub: "subplots ?r ?c (15, 13) = (fig, Inr axs)"
      and loop: "for_each (\<lambda>(i, i_col).
            for_each (distribution_specie_cell ?data numeric_columns pal bins axs i i_col)
              (enumerate 0 category_columns))
          (enumerate 0 numeric_columns) fig = (None, fig')"
    by (auto simp add: plot_distribution_specie_def select_eq_filter Let_def run_Cons
        split: sum.splits prod.splits option.splits)
  have cell: "(\<exists>h. getitem_chain axs i j = Inr h)
       \<and> {numeric_columns ! i, category_columns ! j} \<subseteq> set (columns df)"
    if "i < ?r" and "j < ?c" for i j
  proof -
    from nested_loop_NoneD [OF loop that] obtain u u'
      where "distribution_specie_cell ?data numeric_columns pal bins axs i
               (numeric_columns ! i) (j, category_columns ! j) u = (None, u')"
      by blast
    then show ?thesis
      by (auto simp add: distribution_specie_cell_def histplot_def bind_result_def
          check_vars_ok elim!: run_Cons_NoneD call_NoneD split: if_splits sum.splits)
  qed
  from sub have pos: "0 < ?r" "0 < ?c"
    by (auto simp add: subplots_unfold split: if_splits)
  with cell [of 0 0] sub have "2 \<le> ?r \<and> 2 \<le> ?c"
    by (auto dest: subplots_chain_D)
  moreover have "set numeric_columns \<subseteq> set (columns df)"
    using cell [of _ 0] pos by (auto simp add: in_set_conv_nth)
  moreover have "set category_columns \<subseteq> set (columns df)"
    using cell [of 0] pos by (auto simp add: in_set_conv_nth)
  ultimately show ?thesis using sp by blast
qed

lemma for_each_enumerate_inv:
  assumes "for_each body (enumerate n xs) s = (None, s')" and "I n s"
    and "\<And>k t t'. n \<le> k \<Longrightarrow> k < n + length xs \<Longrightarrow> I k t \<Longrightarrow>
           body (k, xs ! (k - n)) t = (None, t') \<Longrightarrow> I (Suc k) t'"
  shows "I (n + length xs) s'"
  using assms
proof (induction xs arbitrary: n s)
  case Nil
  then show ?case by simp
next
  case (Cons x xs)
  from Cons.prems(1) obtain s1
    where first: "body (n, x) s = (None, s1)"
      and rest: "for_each body (enumerate (Suc n) xs) s1 = (None, s')"
    by (auto split: prod.splits option.splits)
  from Cons.prems(3) [of n s s1] first Cons.prems(2) have "I (Suc n) s1"
    by simp
  moreover have "I (Suc k) t'"
    if "Suc n \<le> k" "k < Suc n + length xs" "I k t" "body (k, xs ! (k - Suc n)) t = (None, t')"
    for k t t'
    using Cons.prems(3) [of k t t'] that by (simp add: nth_Cons' Suc_diff_Suc)
  ultimately have "I (Suc n + length xs) s'"
    using rest by (intro Cons.IH [of "Suc n" s1]) auto
  then show ?case by simp
qed

lemma for_each_enumerate_step:
  assumes "I n s"
    and "\<And>k t. n \<le> k \<Longrightarrow> k < n + length xs \<Longrightarrow> I k t \<Longrightarrow>
           \<exists>t'. body (k, xs ! (k - n)) t = (None, t') \<and> I (Suc k) t'"
  shows "\<exists>s'. for_each body (enumerate n xs) s = (None, s') \<and> I (n + length xs) s'"
  using assms
proof (induction xs arbitrary: n s)
  case Nil
  then show ?case by simp
next
  case (Cons x xs)
  from Cons.prems(2) [of n s] Cons.prems(1) obtain s1
    where first: "body (n, x) s = (None, s1)" and "I (Suc n) s1"
    by auto
  moreover have "\<exists>t'. body (k, xs ! (k - Suc n)) t = (None, t') \<and> I (Suc k) t'"
    if "Suc n \<le> k" "k < Suc n + length xs" "I k t" for k t
    using Cons.prems(2) [of k t] that by (simp add: nth_Cons' Suc_diff_Suc)
  ultimately obtain s' where "for_each body (enumerate (Suc n) xs) s1 = (None, s')"
    and "I (Suc n + length xs) s'"
    using Cons.IH [of "Suc n" s1] by blast
  with first show ?case by simp
qed

lemma panel_at_put_panel_other:
  "p \<noteq> q \<Longrightarrow> panel_at (put_panel fig p a) q = panel_at fig q"
  by (cases "fst p < length (panels fig)")
     (auto simp add: panel_at_def put_panel_def nth_list_update list_update_beyond
        prod_eq_iff)

lemma single_row_fresh:
  assumes cell: "\<And>j t. j < length xs \<Longrightarrow> grid_shape 1 (length xs) t \<Longrightarrow>
             panel_at t (0, j) = empty_axes \<Longrightarrow>
             body (j, xs ! j) t = (None, put_panel t (0, j) (G j))"
  shows "for_each body (enumerate 0 xs) (blank_figure fs 1 (length xs)) =
         (None, (blank_figure fs 1 (length xs))\<lparr>panels := [map G [0..<length xs]]\<rparr>)"
proof -
  let ?c = "length xs"
  let ?S = "\<lambda>k. (blank_figure fs 1 ?c)
              \<lparr>panels := [map G [0..<k] @ replicate (?c - k) empty_axes]\<rparr>"
  have "\<exists>s'. for_each body (enumerate 0 xs) (blank_figure fs 1 ?c) = (None, s')
          \<and> (\<lambda>k t. t = ?S k) (0 + ?c) s'"
  proof (rule for_each_enumerate_step [where I = "\<lambda>k t. t = ?S k"])
    show "blank_figure fs 1 ?c = ?S 0"
      by (simp add: blank_figure_def)
  next
    fix k t
    assume "0 \<le> k" and k: "k < 0 + ?c" and t: "t = ?S k"
    from k have shape: "grid_shape 1 ?c (?S k)"
      by (simp add: grid_shape_def)
    from k have fresh: "panel_at (?S k) (0, k) = empty_axes"
      by (simp add: panel_at_def nth_append)
    from k have "(map G [0..<k] @ replicate (?c - k) empty_axes)[k := G k] =
                 map G [0..<Suc k] @ replicate (?c - Suc k) empty_axes"
      by (auto intro!: nth_equalityI simp add: nth_list_update nth_append less_Suc_eq)
    then have "put_panel (?S k) (0, k) (G k) = ?S (Suc k)"
      by (simp add: put_panel_def)
    with cell [OF _ shape fresh] k t
    show "\<exists>t'. body (k, xs ! (k - 0)) t = (None, t') \<and> t' = ?S (Suc k)"
      by simp
  qed
  then show ?thesis by simp
qed

lemma single_row_fresh_D:
  assumes run: "for_each body (enumerate 0 xs) (blank_figure fs 1 (length xs)) = (None, s')"
    and cell: "\<And>j t t'. j < length xs \<Longrightarrow> grid_shape 1 (length xs) t \<Longrightarrow>
             panel_at t (0, j) = empty_axes \<Longrightarrow> body (j, xs ! j) t = (None, t') \<Longrightarrow>
             Q j \<and> (\<exists>a. t' = put_panel t (0, j) a)"
  shows "\<forall>j<length xs. Q j"
proof -
  let ?c = "length xs"
  let ?I = "\<lambda>k t. grid_shape 1 ?c t \<and> (\<forall>j<k. Q j)
              \<and> (\<forall>j. k \<le> j \<and> j < ?c \<longrightarrow> panel_at t (0, j) = empty_axes)"
  have "?I (0 + ?c) s'"
  proof (rule for_each_enumerate_inv [where I = ?I, OF run])
    show "?I 0 (blank_figure fs 1 ?c)"
      by (simp add: grid_shape_blank) (simp add: panel_at_def blank_figure_def)
  next
    fix k t t'
    assume k: "k < 0 + ?c" and inv: "?I k t" and step: "body (k, xs ! (k - 0)) t = (None, t')"
    from k inv step cell [of k t t'] obtain a where "Q k" and "t' = put_panel t (0, k) a"
      by auto
    with inv show "?I (Suc k) t'"
      by (auto simp add: grid_shape_put_panel panel_at_put_panel_other less_Suc_eq)
  qed
  then show ?thesis by simp
qed

lemma subplots_row_handle:
  assumes "2 \<le> c"
  shows "\<exists>ax. subplots 1 c fs = (blank_figure fs 1 c, Inr ax)
           \<and> (\<forall>j<c. getitem ax j = Inr (Axes (0, j)))"
  using assms by (simp add: subplots_unfold blank_figure_def)

lemma subplots_row_D:
  assumes "subplots 1 c fs = (fig, Inr ax)" and "getitem ax j = Inr h"
  shows "2 \<le> c \<and> fig = blank_figure fs 1 c \<and> h = Axes (0, j)"
  using assms by (auto simp add: subplots_unfold blank_figure_def split: if_splits)

lemma kde_curves_plain:
  "kde_curves \<lparr>h_data = df, h_x = col, h_hue = None, h_palette = pal, h_bins = bins,
                h_multiple = m, h_alpha = al, h_color = Some color, h_kde = kde\<rparr> =
   (if kde \<and> estimable (map (\<lambda>r. cell_of r col) (rows df))
    then [\<lparr>l_kind = Curve, l_color = color, l_linestyle = ''-'', l_linewidth = 3 / 2,
           l_label = None\<rparr>]
    else [])"
  by (simp add: kde_curves_def kde_groups_def)

lemma histograms_panel_fresh:
  assumes "getitem ax j = Inr (Axes (0, j))" and "grid_shape 1 c t" and "j < c"
    and "panel_at t (0, j) = empty_axes"
    and "col \<in> set (columns df)" and "kde"
    and "estimable (map (\<lambda>r. cell_of r col) (rows df))"
    and "loc stats ''25%'' col = Inr q1" and "loc stats ''75%'' col = Inr q3"
    and "loc stats ''mean'' col = Inr m"
  shows "histograms_panel df stats pal bins alpha color kde ax (j, col) t =
     (None, put_panel t (0, j)
        (empty_axes\<lparr>artists :=
            [Histplot \<lparr>h_data = df, h_x = col, h_hue = None, h_palette = pal, h_bins = bins,
               h_multiple = Layer, h_alpha = Some alpha, h_color = Some color,
               h_kde = True\<rparr>],
          xlabel := col, ylabel := ''Count'',
          lines :=
            [\<lparr>l_kind = Curve, l_color = ''#4c36f5'', l_linestyle = ''-'',
               l_linewidth = 3 / 2, l_label = None\<rparr>,
             \<lparr>l_kind = VLine q1, l_color = ''#f26a02'', l_linestyle = ''dashed'',
               l_linewidth = 5 / 2, l_label = Some ''Q1''\<rparr>,
             \<lparr>l_kind = VLine q3, l_color = ''#bd00b0'', l_linestyle = ''dashed'',
               l_linewidth = 5 / 2, l_label = Some ''Q3''\<rparr>,
             \<lparr>l_kind = VLine m, l_color = ''#f75c6b'', l_linestyle = ''dashed'',
               l_linewidth = 5 / 2, l_label = Some ''Mean''\<rparr>],
          legend := Some [''Q1'', ''Q3'', ''Mean'']\<rparr>))"
proof -
  have ok: "check_vars df [col] = Inr ()"
    using assms(5) by (simp add: check_vars_ok)
  with assms show ?thesis
    by (simp add: histograms_panel_def run_Cons run_Nil call_Axes histplot_def
        bind_result_def record_call_def kde_curves_plain set_line_color_def axvline_def
        show_legend_def List.map_filter_def panel_at_put_panel put_panel_twice empty_axes_def)
qed

lemma histograms_panel_D:
  assumes "histograms_panel df stats pal bins alpha color kde ax (j, col) t = (None, t')"
    and "getitem ax j = Inr (Axes (0, j))" and "grid_shape 1 c t" and "j < c"
    and "panel_at t (0, j) = empty_axes"
  shows "(kde \<and> col \<in> set (columns df)
          \<and> estimable (map (\<lambda>r. cell_of r col) (rows df))
          \<and> (\<exists>q1 q3 m. loc stats ''25%'' col = Inr q1 \<and> loc stats ''75%'' col = Inr q3
                \<and> loc stats ''mean'' col = Inr m))
       \<and> (\<exists>a. t' = put_panel t (0, j) a)"
proof -
  let ?args = "\<lparr>h_data = df, h_x = col, h_hue = None, h_palette = pal,
                h_bins = bins, h_multiple = Layer, h_alpha = Some alpha,
                h_color = Some color, h_kde = kde\<rparr>"
  from assms(1,2) obtain a1 a2 a3 a4 a5 a6
    where "histplot ?args (panel_at t (0, j)) = Inr a1"
      and "set_line_color 0 ''#4c36f5'' (panel_at (put_panel t (0, j) a1) (0, j)) = Inr a2"
      and "axvline (loc stats ''25%'' col) ''#f26a02'' ''dashed'' (5 / 2) ''Q1''
             (panel_at (put_panel (put_panel t (0, j) a1) (0, j) a2) (0, j)) = Inr a3"
      and "axvline (loc stats ''75%'' col) ''#bd00b0'' ''dashed'' (5 / 2) ''Q3''
             (panel_at (put_panel (put_panel (put_panel t (0, j) a1) (0, j) a2) (0, j) a3)
                (0, j)) = Inr a4"
      and "axvline (loc stats ''mean'' col) ''#f75c6b'' ''dashed'' (5 / 2) ''Mean''
             (panel_at (put_panel (put_panel (put_panel (put_panel t (0, j) a1) (0, j) a2)
                (0, j) a3) (0, j) a4) (0, j)) = Inr a5"
      and "t' = put_panel (put_panel (put_panel (put_panel (put_panel (put_panel t (0, j) a1)
                (0, j) a2) (0, j) a3) (0, j) a4) (0, j) a5) (0, j) a6"
    by (auto simp add: histograms_panel_def run_Nil elim!: run_Cons_NoneD call_NoneD)
  with assms(3-5)
  have h1: "histplot ?args empty_axes = Inr a1"
    and h2: "set_line_color 0 ''#4c36f5'' a1 = Inr a2"
    and h3: "axvline (loc stats ''25%'' col) ''#f26a02'' ''dashed'' (5 / 2) ''Q1'' a2 = Inr a3"
    and h4: "axvline (loc stats ''75%'' col) ''#bd00b0'' ''dashed'' (5 / 2) ''Q3'' a3 = Inr a4"
    and h5: "axvline (loc stats ''mean'' col) ''#f75c6b'' ''dashed'' (5 / 2) ''Mean'' a4
               = Inr a5"
    and t': "t' = put_panel t (0, j) a6"
    by (simp_all add: put_panel_twice panel_at_put_panel)
  from h1 have col: "col \<in> set (columns df)" and a1: "lines a1 = kde_curves ?args"
    by (auto simp add: histplot_def bind_result_def check_vars_ok record_call_def
        empty_axes_def split: sum.splits)
  from h2 a1 have curve: "kde \<and> estimable (map (\<lambda>r. cell_of r col) (rows df))"
    by (auto simp add: set_line_color_def kde_curves_plain split: if_splits)
  from h3 h4 h5
  have "\<exists>q1 q3 m. loc stats ''25%'' col = Inr q1 \<and> loc stats ''75%'' col = Inr q3
                \<and> loc stats ''mean'' col = Inr m"
    by (auto simp add: axvline_def split: sum.splits)
  with col curve t' show ?thesis by blast
qed

lemma histograms_result:
  assumes "2 \<le> length stats" and "kde"
    and "\<forall>col\<in>set (map fst stats). col \<in> set (columns df)
           \<and> estimable (map (\<lambda>r. cell_of r col) (rows df))
           \<and> (\<exists>q1 q3 m. loc stats ''25%'' col = Inr q1 \<and> loc stats ''75%'' col = Inr q3
                 \<and> loc stats ''mean'' col = Inr m)"
  shows "plot_histograms df stats pal fs bins alpha color kde plt =
    (None, plt @ [\<lparr>figsize = fs,
       panels = [map (\<lambda>col.
          empty_axes\<lparr>artists :=
            [Histplot \<lparr>h_data = df, h_x = col, h_hue = None, h_palette = pal, h_bins = bins,
               h_multiple = Layer, h_alpha = Some alpha, h_color = Some color,
               h_kde = True\<rparr>],
          xlabel := col, ylabel := ''Count'',
          lines :=
            [\<lparr>l_kind = Curve, l_color = ''#4c36f5'', l_linestyle = ''-'',
               l_linewidth = 3 / 2, l_label = None\<rparr>,
             \<lparr>l_kind = VLine (projr (loc stats ''25%'' col)), l_color = ''#f26a02'',
               l_linestyle = ''dashed'', l_linewidth = 5 / 2, l_label = Some ''Q1''\<rparr>,
             \<lparr>l_kind = VLine (projr (loc stats ''75%'' col)), l_color = ''#bd00b0'',
               l_linestyle = ''dashed'', l_linewidth = 5 / 2, l_label = Some ''Q3''\<rparr>,
             \<lparr>l_kind = VLine (projr (loc stats ''mean'' col)), l_color = ''#f75c6b'',
               l_linestyle = ''dashed'', l_linewidth = 5 / 2, l_label = Some ''Mean''\<rparr>],
          legend := Some [''Q1'', ''Q3'', ''Mean'']\<rparr>) (map fst stats)],
       suptitle = None, subplots_top = None\<rparr>])"
proof -
  let ?cols = "map fst stats"
  let ?c = "length ?cols"
  let ?G = "\<lambda>col. empty_axes\<lparr>artists :=
            [Histplot \<lparr>h_data = df, h_x = col, h_hue = None, h_palette = pal, h_bins = bins,
               h_multiple = Layer, h_alpha = Some alpha, h_color = Some color,
               h_kde = True\<rparr>],
          xlabel := col, ylabel := ''Count'',
          lines :=
            [\<lparr>l_kind = Curve, l_color = ''#4c36f5'', l_linestyle = ''-'',
               l_linewidth = 3 / 2, l_label = None\<rparr>,
             \<lparr>l_kind = VLine (projr (loc stats ''25%'' col)), l_color = ''#f26a02'',
               l_linestyle = ''dashed'', l_linewidth = 5 / 2, l_label = Some ''Q1''\<rparr>,
             \<lparr>l_kind = VLine (projr (loc stats ''75%'' col)), l_color = ''#bd00b0'',
               l_linestyle = ''dashed'', l_linewidth = 5 / 2, l_label = Some ''Q3''\<rparr>,
             \<lparr>l_kind = VLine (projr (loc stats ''mean'' col)), l_color = ''#f75c6b'',
               l_linestyle = ''dashed'', l_linewidth = 5 / 2, l_label = Some ''Mean''\<rparr>],
          legend := Some [''Q1'', ''Q3'', ''Mean'']\<rparr>"
  from assms(1) have "2 \<le> ?c" by simp
  from subplots_row_handle [OF this, of fs] obtain ax
    where sub: "subplots 1 ?c fs = (blank_figure fs 1 ?c, Inr ax)"
      and item: "\<And>j. j < ?c \<Longrightarrow> getitem ax j = Inr (Axes (0, j))"
    by blast
  have "for_each (histograms_panel df stats pal bins alpha color kde ax)
          (enumerate 0 ?cols) (blank_figure fs 1 ?c) =
        (None, (blank_figure fs 1 ?c)\<lparr>panels := [map (\<lambda>j. ?G (?cols ! j)) [0..<?c]]\<rparr>)"
  proof (rule single_row_fresh)
    fix j t
    assume j: "j < ?c" and shape: "grid_shape 1 ?c t"
      and fresh: "panel_at t (0, j) = empty_axes"
    from j have "?cols ! j \<in> set ?cols" by (rule nth_mem)
    with assms(3) have col: "?cols ! j \<in> set (columns df)"
      and est: "estimable (map (\<lambda>r. cell_of r (?cols ! j)) (rows df))"
      and "\<exists>q1 q3 m. loc stats ''25%'' (?cols ! j) = Inr q1
             \<and> loc stats ''75%'' (?cols ! j) = Inr q3
             \<and> loc stats ''mean'' (?cols ! j) = Inr m"
      by blast+
    then have "loc stats ''25%'' (?cols ! j) = Inr (projr (loc stats ''25%'' (?cols ! j)))"
      and "loc stats ''75%'' (?cols ! j) = Inr (projr (loc stats ''75%'' (?cols ! j)))"
      and "loc stats ''mean'' (?cols ! j) = Inr (projr (loc stats ''mean'' (?cols ! j)))"
      by auto
    from histograms_panel_fresh [OF item [OF j] shape j fresh col assms(2) est this]
    show "histograms_panel df stats pal bins alpha color kde ax (j, ?cols ! j) t =
          (None, put_panel t (0, j) (?G (?cols ! j)))"
      using assms(2) by simp
  qed
  moreover have "map (\<lambda>j. ?G (?cols ! j)) [0..<?c] = map ?G ?cols"
    by (rule nth_equalityI) simp_all
  ultimately have loop: "for_each (histograms_panel df stats pal bins alpha color kde ax)
          (enumerate 0 ?cols) (blank_figure fs 1 ?c) =
        (None, (blank_figure fs 1 ?c)\<lparr>panels := [map ?G ?cols]\<rparr>)"
    by (simp only:)
  show ?thesis
    by (simp only: plot_histograms_def sub loop sum.case prod.case)
       (simp add: blank_figure_def)
qed

lemma histograms_success_D:
  assumes "fst (plot_histograms df stats pal fs bins alpha color kde plt) = None"
  shows "2 \<le> length stats \<and> kde
     \<and> (\<forall>col\<in>set (map fst stats). col \<in> set (columns df)
           \<and> estimable (map (\<lambda>r. cell_of r col) (rows df))
           \<and> (\<exists>q1 q3 m. loc stats ''25%'' col = Inr q1 \<and> loc stats ''75%'' col = Inr q3
                 \<and> loc stats ''mean'' col = Inr m))"
proof -
  let ?cols = "map fst stats"
  let ?c = "length ?cols"
  let ?Q = "\<lambda>j. 2 \<le> ?c \<and> kde \<and> ?cols ! j \<in> set (columns df)
           \<and> estimable (map (\<lambda>r. cell_of r (?cols ! j)) (rows df))
           \<and> (\<exists>q1 q3 m. loc stats ''25%'' (?cols ! j) = Inr q1
                 \<and> loc stats ''75%'' (?cols ! j) = Inr q3
                 \<and> loc stats ''mean'' (?cols ! j) = Inr m)"
  from assms obtain fig ax fig'
    where sub: "subplots 1 ?c fs = (fig, Inr ax)"
      and loop: "for_each (histograms_panel df stats pal bins alpha color kde ax)
                   (enumerate 0 ?cols) fig = (None, fig')"
    by (auto simp add: plot_histograms_def split: sum.splits prod.splits)
  from sub have fig: "fig = blank_figure fs 1 ?c" and pos: "0 < ?c"
    by (auto simp add: subplots_unfold blank_figure_def split: if_splits)
  have all: "\<forall>j<?c. ?Q j"
  proof (rule single_row_fresh_D [where Q = ?Q, OF loop [unfolded fig]])
    fix j t t'
    assume j: "j < ?c" and shape: "grid_shape 1 ?c t"
      and fresh: "panel_at t (0, j) = empty_axes"
      and step: "histograms_panel df stats pal bins alpha color kde ax (j, ?cols ! j) t
                   = (None, t')"
    from step obtain h where h: "getitem ax j = Inr h"
      by (auto simp add: histograms_panel_def elim!: run_Cons_NoneD call_NoneD)
    from subplots_row_D [OF sub h] h
    have two: "2 \<le> ?c" and item: "getitem ax j = Inr (Axes (0, j))"
      by simp_all
    from histograms_panel_D [OF step item shape j fresh] two
    show "?Q j \<and> (\<exists>a. t' = put_panel t (0, j) a)"
      by blast
  qed
  with pos have "2 \<le> length stats" and "kde"
    by auto
  moreover from all have "\<forall>col\<in>set ?cols. col \<in> set (columns df)
           \<and> estimable (map (\<lambda>r. cell_of r col) (rows df))
           \<and> (\<exists>q1 q3 m. loc stats ''25%'' col = Inr q1 \<and> loc stats ''75%'' col = Inr q3
                 \<and> loc stats ''mean'' col = Inr m)"
    unfolding all_set_conv_all_nth by blast
  ultimately show ?thesis by blast
qed

lemma sample_histograms_return:
  "fst (plot_histograms penguins_sample stats_sample pal fs bins alpha color True plt) = None"
proof -
  have cols: "map fst stats_sample = [''bill_length_mm'', ''body_mass_g'']"
    by (simp add: stats_sample_def)
  have bill: "''bill_length_mm'' \<in> set (columns penguins_sample)"
      "estimable (map (\<lambda>r. cell_of r ''bill_length_mm'') (rows penguins_sample))"
    and mass: "''body_mass_g'' \<in> set (columns penguins_sample)"
      "estimable (map (\<lambda>r. cell_of r ''body_mass_g'') (rows penguins_sample))"
    by (simp_all add: penguins_sample_def estimable_def cell_of_def)
  have "loc stats_sample ''25%'' ''bill_length_mm'' = Inr (392 / 10)"
    and "loc stats_sample ''75%'' ''bill_length_mm'' = Inr (485 / 10)"
    and "loc stats_sample ''mean'' ''bill_length_mm'' = Inr (439 / 10)"
    and "loc stats_sample ''25%'' ''body_mass_g'' = Inr 3550"
    and "loc stats_sample ''75%'' ''body_mass_g'' = Inr 4750"
    and "loc stats_sample ''mean'' ''body_mass_g'' = Inr 4200"
    by (simp_all add: stats_sample_def loc_def)
  then have "\<exists>q1 q3 m. loc stats_sample ''25%'' ''bill_length_mm'' = Inr q1
        \<and> loc stats_sample ''75%'' ''bill_length_mm'' = Inr q3
        \<and> loc stats_sample ''mean'' ''bill_length_mm'' = Inr m"
    and "\<exists>q1 q3 m. loc stats_sample ''25%'' ''body_mass_g'' = Inr q1
        \<and> loc stats_sample ''75%'' ''body_mass_g'' = Inr q3
        \<and> loc stats_sample ''mean'' ''body_mass_g'' = Inr m"
    by blast+
  with bill mass
  have "\<forall>col\<in>set (map fst stats_sample). col \<in> set (columns penguins_sample)
           \<and> estimable (map (\<lambda>r. cell_of r col) (rows penguins_sample))
           \<and> (\<exists>q1 q3 m. loc stats_sample ''25%'' col = Inr q1
                 \<and> loc stats_sample ''75%'' col = Inr q3
                 \<and> loc stats_sample ''mean'' col = Inr m)"
    unfolding cols by simp
  moreover have "2 \<le> length stats_sample"
    by (simp add: stats_sample_def)
  ultimately show ?thesis
    by (simp add: histograms_result)
qed

lemma proportions_of_mset:
  assumes "proportions_of df c = Inr props"
  shows "c \<in> set (columns df)"
    and "mset props =
         mset (map (\<lambda>l. (l, of_nat (count_list
                               (filter (\<lambda>v. v \<noteq> NaN) (map (\<lambda>r. cell_of r c) (rows df))) l)
                             / of_nat (length
                               (filter (\<lambda>v. v \<noteq> NaN) (map (\<lambda>r. cell_of r c) (rows df))))
                             * 100))
                (remdups (filter (\<lambda>v. v \<noteq> NaN) (map (\<lambda>r. cell_of r c) (rows df)))))"
    and "sorted (map (\<lambda>(l, v). label_key l) props)"
proof -
  let ?present = "filter (\<lambda>v. v \<noteq> NaN) (map (\<lambda>r. cell_of r c) (rows df))"
  from assms show col: "c \<in> set (columns df)"
    by (auto simp add: proportions_of_def getcol_def bind_result_def split: if_splits)
  with assms
  have props: "props = sort_key (\<lambda>(l, v). label_key l)
                 (times (value_counts_normalize (map (\<lambda>r. cell_of r c) (rows df))) 100)"
    by (auto simp add: proportions_of_def getcol_def bind_result_def sort_index_def
        split: if_splits)
  then show "sorted (map (\<lambda>(l, v). label_key l) props)"
    by simp
  from props show "mset props =
         mset (map (\<lambda>l. (l, of_nat (count_list ?present l) / of_nat (length ?present) * 100))
                (remdups ?present))"
    by (simp add: times_def value_counts_normalize_def Let_def image_mset.compositionality
        comp_def split_def)
qed

lemma proportions_of_labels:
  assumes "proportions_of df c = Inr props"
  shows "distinct (map fst props)"
    and "set (map fst props) =
         set (filter (\<lambda>v. v \<noteq> NaN) (map (\<lambda>r. cell_of r c) (rows df)))"
    and "sorted (map label_key (map fst props))"
proof -
  let ?present = "filter (\<lambda>v. v \<noteq> NaN) (map (\<lambda>r. cell_of r c) (rows df))"
  from proportions_of_mset(2) [OF assms]
  have "image_mset fst (mset props) = mset (remdups ?present)"
    by (simp add: image_mset.compositionality comp_def)
  then have eq: "mset (map fst props) = mset (remdups ?present)"
    by simp
  from mset_eq_imp_distinct_iff [OF eq] show "distinct (map fst props)"
    by simp
  from mset_eq_setD [OF eq] show "set (map fst props) = set ?present"
    by simp
  from proportions_of_mset(3) [OF assms] show "sorted (map label_key (map fst props))"
    by (simp add: comp_def split_def)
qed

lemma proportions_of_values:
  assumes "proportions_of df c = Inr props" and "(l, v) \<in> set props"
  shows "v = of_nat (count_list
                (filter (\<lambda>v. v \<noteq> NaN) (map (\<lambda>r. cell_of r c) (rows df))) l)
             / of_nat (length (filter (\<lambda>v. v \<noteq> NaN) (map (\<lambda>r. cell_of r c) (rows df))))
             * 100"
proof -
  from assms(2) have "(l, v) \<in># mset props" by simp
  with proportions_of_mset(2) [OF assms(1)] show ?thesis
    by auto
qed

lemma proportions_of_sum:
  assumes "proportions_of df c = Inr props"
  shows "sum_list (map snd props) =
         (if filter (\<lambda>v. v \<noteq> NaN) (map (\<lambda>r. cell_of r c) (rows df)) = [] then 0 else 100)"
proof -
  define present where "present = filter (\<lambda>v. v \<noteq> NaN) (map (\<lambda>r. cell_of r c) (rows df))"
  have ms: "mset props =
      mset (map (\<lambda>l. (l, of_nat (count_list present l) / of_nat (length present) * 100))
             (remdups present))"
    unfolding present_def by (rule proportions_of_mset(2) [OF assms])
  have "sum_list (map snd props) = sum_mset (image_mset snd (mset props))"
    by (simp flip: sum_mset_sum_list)
  also have "\<dots> = sum_list (map (\<lambda>l. of_nat (count_list present l) / of_nat (length present)
                                   * 100) (remdups present))"
    by (simp add: ms image_mset.compositionality comp_def flip: sum_mset_sum_list)
  also have "\<dots> = (\<Sum>l\<in>set present. of_nat (count_list present l) / of_nat (length present)
                                   * 100)"
    by (simp add: sum_list_distinct_conv_sum_set)
  also have "\<dots> = of_nat (\<Sum>l\<in>set present. count_list present l) / of_nat (length present)
                      * 100"
    by (simp add: sum_divide_distrib sum_distrib_right)
  also have "(\<Sum>l\<in>set present. count_list present l) = length present"
    by (rule sum_count_set) simp_all
  finally have "sum_list (map snd props) = (if present = [] then 0 else 100)"
    by simp
  then show ?thesis
    unfolding present_def .
qed

lemma put_panel_same: "put_panel t p (panel_at t p) = t"
  by (simp add: put_panel_def panel_at_def)

lemma text_loop:
  assumes "grid_shape r c t" and "i < r" and "j < c"
  shows "for_each (\<lambda>p. call (Inr (Axes (i, j))) (add_text (X p) (Y p) (S p) ha)) ps t =
     (None, put_panel t (i, j)
        ((panel_at t (i, j))\<lparr>texts := texts (panel_at t (i, j)) @
            map (\<lambda>p. \<lparr>t_x = X p, t_y = Y p, t_s = S p, t_ha = ha\<rparr>) ps\<rparr>))"
  using assms
proof (induction ps arbitrary: t)
  case Nil
  then show ?case by (simp add: put_panel_same)
next
  case (Cons p ps)
  let ?t1 = "put_panel t (i, j)
      ((panel_at t (i, j))\<lparr>texts := texts (panel_at t (i, j)) @
          [\<lparr>t_x = X p, t_y = Y p, t_s = S p, t_ha = ha\<rparr>]\<rparr>)"
  have first: "call (Inr (Axes (i, j))) (add_text (X p) (Y p) (S p) ha) t = (None, ?t1)"
    by (simp add: call_Axes add_text_def)
  from Cons.prems have "grid_shape r c ?t1"
    by (simp add: grid_shape_put_panel)
  from Cons.IH [OF this Cons.prems(2,3)] Cons.prems first show ?case
    by (simp add: panel_at_put_panel put_panel_twice)
qed

lemma barplot_proportions_frame:
  "barplot (proportions_frame props) ''category'' ''proportion'' pal empty_axes =
   Inr (empty_axes\<lparr>artists := [Barplot (proportions_frame props) ''category'' ''proportion''
                                   pal],
          xlabel := ''category'', ylabel := ''proportion'',
          patches := map (\<lambda>k. \<lparr>p_x = of_nat k - 2 / 5, p_width = 4 / 5,
                                  p_height = snd (props ! k)\<rparr>) [0..<length props],
          xticklabels := map fst props\<rparr>)"
proof -
  have "map (\<lambda>(k, r). \<lparr>p_x = of_nat k - 2 / 5, p_width = 4 / 5,
                        p_height = num_of (cell_of r ''proportion'')\<rparr>)
          (enumerate 0 (map (\<lambda>(l, v). [(''proportion'', Num v), (''category'', l)]) props)) =
        map (\<lambda>k. \<lparr>p_x = of_nat k - 2 / 5, p_width = 4 / 5, p_height = snd (props ! k)\<rparr>)
          [0..<length props]"
    by (rule nth_equalityI)
       (simp_all add: nth_enumerate_eq cell_of_def num_of_def split_def)
  moreover have "map (\<lambda>r. cell_of r ''category'')
          (map (\<lambda>(l, v). [(''proportion'', Num v), (''category'', l)]) props) = map fst props"
    by (simp add: cell_of_def split_def)
  ultimately show ?thesis
    by (simp add: barplot_def check_vars_def bind_result_def record_call_def
        proportions_frame_def empty_axes_def)
qed

lemma category_proportions_panel_fresh:
  assumes "getitem axs i = Inr (Axes (0, i))" and "grid_shape 1 c t" and "i < c"
    and "panel_at t (0, i) = empty_axes"
    and "proportions_of df category = Inr props"
  shows "category_proportions_panel df pal axs (i, category) t =
     (None, put_panel t (0, i)
        (empty_axes\<lparr>artists := [Barplot (proportions_frame props) ''category''
                                   ''proportion'' pal],
          patches := map (\<lambda>k. \<lparr>p_x = of_nat k - 2 / 5, p_width = 4 / 5,
                                  p_height = snd (props ! k)\<rparr>) [0..<length props],
          xticklabels := map fst props,
          texts := map (\<lambda>p. \<lparr>t_x = p_x p + p_width p / 2, t_y = p_height p + 1,
                                t_s = fmt_2f (p_height p) @ ''%'', t_ha = ''center''\<rparr>)
                     (map (\<lambda>k. \<lparr>p_x = of_nat k - 2 / 5, p_width = 4 / 5,
                                  p_height = snd (props ! k)\<rparr>) [0..<length props]),
          title := ''Proportion of '' @ category, xlabel := category,
          ylabel := ''Proportion (%)'', ylim := Some (0, 100),
          xtick_style := Some (45, ''right'')\<rparr>))"
proof -
  let ?bars = "map (\<lambda>k. \<lparr>p_x = of_nat k - 2 / 5, p_width = 4 / 5,
                            p_height = snd (props ! k)\<rparr>) [0..<length props]"
  let ?a1 = "empty_axes\<lparr>artists := [Barplot (proportions_frame props) ''category''
                                       ''proportion'' pal],
          xlabel := ''category'', ylabel := ''proportion'',
          patches := ?bars, xticklabels := map fst props\<rparr>"
  let ?t1 = "put_panel t (0, i) ?a1"
  have bar: "call (getitem axs i)
               (barplot (proportions_frame props) ''category'' ''proportion'' pal) t =
             (None, ?t1)"
    using assms(1,4) by (simp add: call_Axes barplot_proportions_frame)
  from assms(2) have shape1: "grid_shape 1 c ?t1"
    by (rule grid_shape_put_panel)
  from assms(2,3) have p1: "panel_at ?t1 (0, i) = ?a1"
    by (simp add: panel_at_put_panel)
  have "patches ?a1 = ?bars"
    by simp
  with p1 assms(1)
  have "for_patches (getitem axs i) (\<lambda>p.
             call (getitem axs i)
               (add_text (p_x p + p_width p / 2) (p_height p + 1)
                  (fmt_2f (p_height p) @ ''%'') ''center'')) ?t1 =
        for_each (\<lambda>p. call (Inr (Axes (0, i)))
               (add_text (p_x p + p_width p / 2) (p_height p + 1)
                  (fmt_2f (p_height p) @ ''%'') ''center'')) ?bars ?t1"
    by (simp only: for_patches_def sum.case handle.case)
  also from shape1 assms(3) p1
  have "\<dots> = (None, put_panel ?t1 (0, i)
        (?a1\<lparr>texts := texts ?a1 @
            map (\<lambda>p. \<lparr>t_x = p_x p + p_width p / 2, t_y = p_height p + 1,
                       t_s = fmt_2f (p_height p) @ ''%'', t_ha = ''center''\<rparr>) ?bars\<rparr>))"
    by (subst text_loop [where r = 1 and c = c]) simp_all
  finally have annotate: "for_patches (getitem axs i) (\<lambda>p.
             call (getitem axs i)
               (add_text (p_x p + p_width p / 2) (p_height p + 1)
                  (fmt_2f (p_height p) @ ''%'') ''center'')) ?t1 =
        (None, put_panel t (0, i)
        (?a1\<lparr>texts := texts ?a1 @
            map (\<lambda>p. \<lparr>t_x = p_x p + p_width p / 2, t_y = p_height p + 1,
                       t_s = fmt_2f (p_height p) @ ''%'', t_ha = ''center''\<rparr>) ?bars\<rparr>))"
    by (simp only: put_panel_twice)
  let ?a2 = "?a1\<lparr>texts := texts ?a1 @
            map (\<lambda>p. \<lparr>t_x = p_x p + p_width p / 2, t_y = p_height p + 1,
                       t_s = fmt_2f (p_height p) @ ''%'', t_ha = ''center''\<rparr>) ?bars\<rparr>"
  let ?rest = "[call (getitem axs i) (set_title (Some (''Proportion of '' @ category))),
           call (getitem axs i) (set_xlabel (Some category)),
           call (getitem axs i) (set_ylabel (Some ''Proportion (%)'')),
           call (getitem axs i) (set_ylim 0 100),
           call (getitem axs i) (restyle_xticklabels 45 ''right'')]"
  have "category_proportions_panel df pal axs (i, category) t =
        run (call (getitem axs i)
               (barplot (proportions_frame props) ''category'' ''proportion'' pal) #
             for_patches (getitem axs i) (\<lambda>p.
               call (getitem axs i)
                 (add_text (p_x p + p_width p / 2) (p_height p + 1)
                    (fmt_2f (p_height p) @ ''%'') ''center'')) # ?rest) t"
    by (simp only: category_proportions_panel_def prod.case assms(5) sum.case)
  also have "\<dots> = run (for_patches (getitem axs i) (\<lambda>p.
               call (getitem axs i)
                 (add_text (p_x p + p_width p / 2) (p_height p + 1)
                    (fmt_2f (p_height p) @ ''%'') ''center'')) # ?rest) ?t1"
    by (simp only: run_Cons bar prod.case option.case)
  also have "\<dots> = run ?rest (put_panel t (0, i) ?a2)"
    by (simp only: run_Cons annotate prod.case option.case)
  also from assms(1-3) have "\<dots> = (None, put_panel t (0, i)
        (?a2\<lparr>title := ''Proportion of '' @ category, xlabel := category,
             ylabel := ''Proportion (%)'', ylim := Some (0, 100),
             xtick_style := Some (45, ''right'')\<rparr>))"
    by (simp add: run_Cons run_Nil call_Axes panel_at_put_panel put_panel_twice
        set_title_def set_xlabel_def set_ylabel_def set_ylim_def restyle_xticklabels_def
        text_of_def del: map_map)
  finally show ?thesis
    by (simp add: empty_axes_def del: map_map)
qed

lemma wrapped_row_handle:
  assumes "0 < n"
  shows "\<exists>ax0. subplots 1 n fs = (blank_figure fs 1 n, Inr ax0)
           \<and> (\<forall>j<n. getitem (if n = 1 then AxesArray [ax0] else ax0) j = Inr (Axes (0, j)))"
proof (cases "n = 1")
  case True
  then show ?thesis by (simp add: subplots_unfold blank_figure_def)
next
  case False
  with assms have "2 \<le> n" by simp
  from subplots_row_handle [OF this, of fs] False show ?thesis by simp
qed

lemma category_proportions_result:
  assumes "category_columns \<noteq> []"
    and "\<forall>c\<in>set category_columns. \<exists>props. proportions_of df c = Inr props"
  shows "plot_category_proportions df category_columns pal fs plt =
    (None, plt @ [\<lparr>figsize = fs,
       panels = [map (\<lambda>category.
         empty_axes\<lparr>artists :=
             [Barplot (proportions_frame (projr (proportions_of df category))) ''category''
                ''proportion'' pal],
          patches := map (\<lambda>k. \<lparr>p_x = of_nat k - 2 / 5, p_width = 4 / 5,
                         p_height = snd (projr (proportions_of df category) ! k)\<rparr>)
                       [0..<length (projr (proportions_of df category))],
          xticklabels := map fst (projr (proportions_of df category)),
          texts := map (\<lambda>p. \<lparr>t_x = p_x p + p_width p / 2, t_y = p_height p + 1,
                                t_s = fmt_2f (p_height p) @ ''%'', t_ha = ''center''\<rparr>)
                     (map (\<lambda>k. \<lparr>p_x = of_nat k - 2 / 5, p_width = 4 / 5,
                         p_height = snd (projr (proportions_of df category) ! k)\<rparr>)
                       [0..<length (projr (proportions_of df category))]),
          title := ''Proportion of '' @ category, xlabel := category,
          ylabel := ''Proportion (%)'', ylim := Some (0, 100),
          xtick_style := Some (45, ''right'')\<rparr>) category_columns],
       suptitle = None, subplots_top = None\<rparr>])"
proof -
  let ?c = "length category_columns"
  let ?G = "\<lambda>category.
         empty_axes\<lparr>artists :=
             [Barplot (proportions_frame (projr (proportions_of df category))) ''category''
                ''proportion'' pal],
          patches := map (\<lambda>k. \<lparr>p_x = of_nat k - 2 / 5, p_width = 4 / 5,
                         p_height = snd (projr (proportions_of df category) ! k)\<rparr>)
                       [0..<length (projr (proportions_of df category))],
          xticklabels := map fst (projr (proportions_of df category)),
          texts := map (\<lambda>p. \<lparr>t_x = p_x p + p_width p / 2, t_y = p_height p + 1,
                                t_s = fmt_2f (p_height p) @ ''%'', t_ha = ''center''\<rparr>)
                     (map (\<lambda>k. \<lparr>p_x = of_nat k - 2 / 5, p_width = 4 / 5,
                         p_height = snd (projr (proportions_of df category) ! k)\<rparr>)
                       [0..<length (projr (proportions_of df category))]),
          title := ''Proportion of '' @ category, xlabel := category,
          ylabel := ''Proportion (%)'', ylim := Some (0, 100),
          xtick_style := Some (45, ''right'')\<rparr>"
  from assms(1) have "0 < ?c" by simp
  from wrapped_row_handle [OF this, of fs] obtain ax0
    where sub: "subplots 1 ?c fs = (blank_figure fs 1 ?c, Inr ax0)"
      and item: "\<And>j. j < ?c \<Longrightarrow>
                   getitem (if ?c = 1 then AxesArray [ax0] else ax0) j = Inr (Axes (0, j))"
    by blast
  let ?axs = "if ?c = 1 then AxesArray [ax0] else ax0"
  have "for_each (category_proportions_panel df pal ?axs) (enumerate 0 category_columns)
          (blank_figure fs 1 ?c) =
        (None, (blank_figure fs 1 ?c)
           \<lparr>panels := [map (\<lambda>j. ?G (category_columns ! j)) [0..<?c]]\<rparr>)"
  proof (rule single_row_fresh)
    fix j t
    assume j: "j < ?c" and shape: "grid_shape 1 ?c t"
      and fresh: "panel_at t (0, j) = empty_axes"
    from j have "category_columns ! j \<in> set category_columns" by (rule nth_mem)
    with assms(2)
    have "proportions_of df (category_columns ! j) =
            Inr (projr (proportions_of df (category_columns ! j)))"
      by fastforce
    from category_proportions_panel_fresh [OF item [OF j] shape j fresh this]
    show "category_proportions_panel df pal ?axs (j, category_columns ! j) t =
          (None, put_panel t (0, j) (?G (category_columns ! j)))" .
  qed
  moreover have "map (\<lambda>j. ?G (category_columns ! j)) [0..<?c] = map ?G category_columns"
    by (rule nth_equalityI) simp_all
  ultimately have loop: "for_each (category_proportions_panel df pal ?axs)
          (enumerate 0 category_columns) (blank_figure fs 1 ?c) =
        (None, (blank_figure fs 1 ?c)\<lparr>panels := [map ?G category_columns]\<rparr>)"
    by (simp only:)
  show ?thesis
    by (simp only: plot_category_proportions_def Let_def sub loop sum.case prod.case)
       (simp add: blank_figure_def)
qed

lemma category_proportions_success_D:
  assumes "fst (plot_category_proportions df category_columns pal fs plt) = None"
  shows "category_columns \<noteq> []
     \<and> (\<forall>c\<in>set category_columns. \<exists>props. proportions_of df c = Inr props)"
proof -
  from assms obtain fig axs fig'
    where sub: "subplots 1 (length category_columns) fs = (fig, Inr axs)"
      and loop: "for_each (category_proportions_panel df pal
                   (if length category_columns = 1 then AxesArray [axs] else axs))
                   (enumerate 0 category_columns) fig = (None, fig')"
    by (auto simp add: plot_category_proportions_def Let_def simp del: One_nat_def
        split: sum.splits prod.splits)
  from sub have "category_columns \<noteq> []"
    by (auto simp add: subplots_unfold)
  moreover have "\<exists>props. proportions_of df c = Inr props" if "c \<in> set category_columns" for c
  proof -
    from that obtain j where "j < length category_columns" and "c = category_columns ! j"
      by (auto simp add: in_set_conv_nth)
    then have "(j, c) \<in> set (enumerate 0 category_columns)"
      by (simp add: in_set_enumerate_eq)
    from for_each_NoneD [OF loop this] show ?thesis
      by (cases "proportions_of df c") (auto simp add: category_proportions_panel_def)
  qed
  ultimately show ?thesis by blast
qed

lemma column_grid_tuple_index:
  "getitem_tuple (AxesArray (map (\<lambda>i. Axes (i, 0)) [0..<Suc (Suc n)])) i j =
     Inl (IndexError ''too many indices for array'')"
  by (simp add: upt_conv_Cons del: upt_Suc)

lemma violin_column_grid:
  "plot_categorical_vs_numeric df (c0 # c1 # cs) [n] ''violin'' pal plt =
     (Some (IndexError ''too many indices for array''),
      plt @ [blank_figure (20, 15) (Suc (Suc (length cs))) 1])"
  by (simp add: plot_categorical_vs_numeric_def subplots_unfold Let_def
      categorical_vs_numeric_cell_def run_Cons call_def blank_figure_def
      column_grid_tuple_index del: upt_Suc)

lemma row_grid_first_cell:
  "getitem_chain (AxesArray (map (\<lambda>j. Axes (0, j)) [0..<Suc (Suc n)])) 0 0 =
     Inl (TypeError ''Axes object is not subscriptable'')"
  "getitem_tuple (AxesArray (map (\<lambda>j. Axes (0, j)) [0..<Suc (Suc n)])) 0 0 =
     Inl (IndexError ''too many indices for array'')"
  by (simp_all add: upt_conv_Cons getitem_chain_def bind_result_def del: upt_Suc)

lemma column_grid_first_cell:
  "getitem_chain (AxesArray (map (\<lambda>i. Axes (i, 0)) [0..<Suc (Suc n)])) 0 0 =
     Inl (TypeError ''Axes object is not subscriptable'')"
  by (simp_all add: upt_conv_Cons getitem_chain_def bind_result_def del: upt_Suc)

lemma box_row_grid:
  "plot_categorical_vs_numeric df [c] (n0 # n1 # ns) ''box'' pal plt =
     (Some (TypeError ''Axes object is not subscriptable''),
      plt @ [blank_figure (20, 15) 1 (Suc (Suc (length ns)))])"
  by (simp add: plot_categorical_vs_numeric_def subplots_unfold Let_def
      categorical_vs_numeric_cell_def run_Cons call_def blank_figure_def
      row_grid_first_cell del: upt_Suc)

lemma violin_row_grid:
  "plot_categorical_vs_numeric df [c] (n0 # n1 # ns) ''violin'' pal plt =
     (Some (IndexError ''too many indices for array''),
      plt @ [blank_figure (20, 15) 1 (Suc (Suc (length ns)))])"
  by (simp add: plot_categorical_vs_numeric_def subplots_unfold Let_def
      categorical_vs_numeric_cell_def run_Cons call_def blank_figure_def
      row_grid_first_cell del: upt_Suc)

lemma distributions_row_grid:
  "plot_distributions df [c] (n0 # n1 # ns) pal plt =
     (Some (TypeError ''Axes object is not subscriptable''),
      plt @ [blank_figure (20, 15) 1 (Suc (Suc (length ns)))])"
  by (simp add: plot_distributions_def subplots_unfold Let_def
      distributions_cell_def run_Cons call_def blank_figure_def
      row_grid_first_cell del: upt_Suc)

lemma distribution_specie_row_grid:
  assumes "''species'' \<in> set (columns df)"
  shows "plot_distribution_specie df [n] (c0 # c1 # cs) species pal bins plt =
     (Some (TypeError ''Axes object is not subscriptable''),
      plt @ [blank_figure (15, 13) 1 (Suc (Suc (length cs)))])"
  using assms
  by (simp add: plot_distribution_specie_def select_eq_filter subplots_unfold Let_def
      distribution_specie_cell_def run_Cons call_def blank_figure_def
      row_grid_first_cell del: upt_Suc)

lemma distribution_specie_column_grid:
  assumes "''species'' \<in> set (columns df)"
  shows "plot_distribution_specie df (n0 # n1 # ns) [c] species pal bins plt =
     (Some (TypeError ''Axes object is not subscriptable''),
      plt @ [blank_figure (15, 13) (Suc (Suc (length ns))) 1])"
  using assms
  by (simp add: plot_distribution_specie_def select_eq_filter subplots_unfold Let_def
      distribution_specie_cell_def run_Cons call_def blank_figure_def
      column_grid_first_cell del: upt_Suc)

lemma value_counts_labels:
  "fst ` set (times (value_counts_normalize vals) k) = set (filter (\<lambda>v. v \<noteq> NaN) vals)"
  by (force simp add: times_def value_counts_normalize_def Let_def image_iff)

lemma proportions_of_ok:
  assumes "c \<in> set (columns df)"
    and "\<not> ((\<exists>r\<in>set (rows df). is_Str (cell_of r c)) \<and> (\<exists>r\<in>set (rows df). is_Num (cell_of r c)))"
  shows "\<exists>props. proportions_of df c = Inr props"
proof -
  let ?s = "times (value_counts_normalize (map (\<lambda>r. cell_of r c) (rows df))) 100"
  have "l \<in> (\<lambda>r. cell_of r c) ` set (rows df)" if "(l, v) \<in> set ?s" for l v
  proof -
    from that have "l \<in> fst ` set ?s" by force
    then show ?thesis by (simp add: value_counts_labels)
  qed
  with assms(2) have "\<not> (list_ex (\<lambda>(l, v). is_Str l) ?s \<and> list_ex (\<lambda>(l, v). is_Num l) ?s)"
    unfolding list_ex_iff by fastforce
  with assms(1) show ?thesis
    by (simp add: proportions_of_def getcol_def bind_result_def sort_index_def)
qed

lemma floor_samples:
  "\<lfloor>10000 / 3 :: rat\<rfloor> = 3333" "\<lfloor>20000 / 3 :: rat\<rfloor> = 6666"
  by (rule floor_unique; simp)+

lemma round_samples:
  "round_half_even 2500 = 2500" "round_half_even 5000 = 5000"
  "round_half_even (10000 / 3) = 3333" "round_half_even (20000 / 3) = 6667"
  by (simp_all add: round_half_even_def Let_def floor_samples)

lemma digits_samples:
  "digits_of 25 = ''25''" "digits_of 50 = ''50''" "digits_of 33 = ''33''" "digits_of 66 = ''66''"
  by (simp_all add: digits_of.simps [of 25] digits_of.simps [of 50] digits_of.simps [of 33]
      digits_of.simps [of 66] digits_of.simps [of 2] digits_of.simps [of 5]
      digits_of.simps [of 3] digits_of.simps [of 6] digit_def)

lemma fmt_2f_samples:
  "fmt_2f 25 = ''25.00''" "fmt_2f 50 = ''50.00''"
  "fmt_2f (100 / 3) = ''33.33''" "fmt_2f (200 / 3) = ''66.67''"
  by (simp_all add: fmt_2f_def round_samples digits_samples digit_def)

lemma sample_sex_proportions:
  "proportions_of penguins_sample ''sex'' = Inr [(Str ''Female'', 100 / 3), (Str ''Male'', 200 / 3)]"
  by (simp add: proportions_of_def getcol_def penguins_sample_def cell_of_def
      value_counts_normalize_def times_def sort_index_def label_key_def bind_result_def)

lemma sample_island_proportions:
  "proportions_of penguins_sample ''island'' =
     Inr [(Str ''Biscoe'', 25), (Str ''Dream'', 50), (Str ''Torgersen'', 25)]"
  by (simp add: proportions_of_def getcol_def penguins_sample_def cell_of_def
      value_counts_normalize_def times_def sort_index_def label_key_def bind_result_def)

lemma empty_sex_proportions: "proportions_of empty_sample ''sex'' = Inr []"
  by (simp add: proportions_of_def getcol_def empty_sample_def
      value_counts_normalize_def times_def sort_index_def bind_result_def)

lemma sum_list_bar_heights:
  "sum_list (map p_height (map (\<lambda>k. \<lparr>p_x = of_nat k - 2 / 5, p_width = 4 / 5,
                                        p_height = snd (props ! k)\<rparr>) [0..<length props])) =
   sum_list (map snd props)"
proof -
  have "map p_height (map (\<lambda>k. \<lparr>p_x = of_nat k - 2 / 5, p_width = 4 / 5,
                                 p_height = snd (props ! k)\<rparr>) [0..<length props]) =
        map snd props"
    by (rule nth_equalityI) simp_all
  then show ?thesis by simp
qed

lemma sample_sex_panel:
  "plot_category_proportions penguins_sample [''sex''] NoPalette (10, 5) [] =
     (None,
      [\<lparr>figsize = (10, 5),
        panels = [[empty_axes\<lparr>artists :=
             [Barplot (proportions_frame [(Str ''Female'', 100 / 3), (Str ''Male'', 200 / 3)])
                ''category'' ''proportion'' NoPalette],
            patches := [\<lparr>p_x = - (2 / 5), p_width = 4 / 5, p_height = 100 / 3\<rparr>,
                        \<lparr>p_x = 3 / 5, p_width = 4 / 5, p_height = 200 / 3\<rparr>],
            xticklabels := [Str ''Female'', Str ''Male''],
            texts := [\<lparr>t_x = 0, t_y = 103 / 3, t_s = ''33.33%'', t_ha = ''center''\<rparr>,
                      \<lparr>t_x = 1, t_y = 203 / 3, t_s = ''66.67%'', t_ha = ''center''\<rparr>],
            title := ''Proportion of sex'', xlabel := ''sex'',
            ylabel := ''Proportion (%)'', ylim := Some (0, 100),
            xtick_style := Some (45, ''right'')\<rparr>]],
        suptitle = None, subplots_top = None\<rparr>])"
  by (simp add: category_proportions_result sample_sex_proportions fmt_2f_samples)

lemma category_proportions_panels:
  assumes "category_columns \<noteq> []"
    and "\<forall>c\<in>set category_columns. c \<in> set (columns df)
           \<and> \<not> ((\<exists>r\<in>set (rows df). is_Str (cell_of r c))
                \<and> (\<exists>r\<in>set (rows df). is_Num (cell_of r c)))"
  shows "\<exists>fig row. plot_category_proportions df category_columns pal fs plt =
                     (None, plt @ [fig])
     \<and> panels fig = [row] \<and> length row = length category_columns
     \<and> (\<forall>i<length category_columns. \<exists>props.
          proportions_of df (category_columns ! i) = Inr props
        \<and> xticklabels (row ! i) = map fst props
        \<and> patches (row ! i) =
            map (\<lambda>k. \<lparr>p_x = of_nat k - 2 / 5, p_width = 4 / 5,
                        p_height = snd (props ! k)\<rparr>) [0..<length props]
        \<and> texts (row ! i) =
            map (\<lambda>p. \<lparr>t_x = p_x p + p_width p / 2, t_y = p_height p + 1,
                       t_s = fmt_2f (p_height p) @ ''%'', t_ha = ''center''\<rparr>)
              (patches (row ! i))
        \<and> ylim (row ! i) = Some (0, 100))"
proof -
  from assms(2)
  have ok: "\<forall>c\<in>set category_columns. \<exists>props. proportions_of df c = Inr props"
    by (blast intro: proportions_of_ok)
  have "\<exists>props. proportions_of df (category_columns ! i) = Inr props
          \<and> props = projr (proportions_of df (category_columns ! i))"
    if "i < length category_columns" for i
  proof -
    from that have "category_columns ! i \<in> set category_columns" by simp
    with ok show ?thesis by fastforce
  qed
  then show ?thesis
    by (simp add: category_proportions_result [OF assms(1) ok] empty_axes_def del: map_map)
       blast
qed

lemma proportions_panel_bars:
  assumes props: "proportions_of df c = Inr props"
    and x: "xticklabels a = map fst props"
    and p: "patches a =
            map (\<lambda>k. \<lparr>p_x = of_nat k - 2 / 5, p_width = 4 / 5,
                        p_height = snd (props ! k)\<rparr>) [0..<length props]"
  shows "distinct (xticklabels a)"
    and "set (xticklabels a) =
           set (filter (\<lambda>v. v \<noteq> NaN) (map (\<lambda>r. cell_of r c) (rows df)))"
    and "sorted (map label_key (xticklabels a))"
    and "length (patches a) = length (xticklabels a)"
    and "\<forall>k<length (patches a).
           p_height (patches a ! k) =
             of_nat (count_list
                       (filter (\<lambda>v. v \<noteq> NaN) (map (\<lambda>r. cell_of r c) (rows df)))
                       (xticklabels a ! k))
             / of_nat (length (filter (\<lambda>v. v \<noteq> NaN) (map (\<lambda>r. cell_of r c) (rows df))))
             * 100
         \<and> p_x (patches a ! k) = of_nat k - 2 / 5
         \<and> p_width (patches a ! k) = 4 / 5"
    and "sum_list (map p_height (patches a)) =
           (if filter (\<lambda>v. v \<noteq> NaN) (map (\<lambda>r. cell_of r c) (rows df)) = [] then 0
            else 100)"
proof -
  show "distinct (xticklabels a)"
    unfolding x by (rule proportions_of_labels(1) [OF props])
  show "set (xticklabels a) =
          set (filter (\<lambda>v. v \<noteq> NaN) (map (\<lambda>r. cell_of r c) (rows df)))"
    unfolding x by (rule proportions_of_labels(2) [OF props])
  show "sorted (map label_key (xticklabels a))"
    unfolding x by (rule proportions_of_labels(3) [OF props])
  show "length (patches a) = length (xticklabels a)"
    by (simp add: x p)
  show "\<forall>k<length (patches a).
           p_height (patches a ! k) =
             of_nat (count_list
                       (filter (\<lambda>v. v \<noteq> NaN) (map (\<lambda>r. cell_of r c) (rows df)))
                       (xticklabels a ! k))
             / of_nat (length (filter (\<lambda>v. v \<noteq> NaN) (map (\<lambda>r. cell_of r c) (rows df))))
             * 100
         \<and> p_x (patches a ! k) = of_nat k - 2 / 5
         \<and> p_width (patches a ! k) = 4 / 5"
  proof (intro allI impI)
    fix k
    assume "k < length (patches a)"
    then have k: "k < length props" by (simp add: p)
    then have "(fst (props ! k), snd (props ! k)) \<in> set props" by simp
    from proportions_of_values [OF props this] k
    show "p_height (patches a ! k) =
             of_nat (count_list
                       (filter (\<lambda>v. v \<noteq> NaN) (map (\<lambda>r. cell_of r c) (rows df)))
                       (xticklabels a ! k))
             / of_nat (length (filter (\<lambda>v. v \<noteq> NaN) (map (\<lambda>r. cell_of r c) (rows df))))
             * 100
         \<and> p_x (patches a ! k) = of_nat k - 2 / 5
         \<and> p_width (patches a ! k) = 4 / 5"
      by (simp add: x p)
  qed
  show "sum_list (map p_height (patches a)) =
           (if filter (\<lambda>v. v \<noteq> NaN) (map (\<lambda>r. cell_of r c) (rows df)) = [] then 0
            else 100)"
    unfolding p sum_list_bar_heights by (rule proportions_of_sum [OF props])
qed

lemma sample_island_panel:
  "plot_category_proportions penguins_sample [''island''] NoPalette (10, 5) [] =
     (None,
      [\<lparr>figsize = (10, 5),
        panels = [[empty_axes\<lparr>artists :=
             [Barplot (proportions_frame
                 [(Str ''Biscoe'', 25), (Str ''Dream'', 50), (Str ''Torgersen'', 25)])
                ''category'' ''proportion'' NoPalette],
            patches := [\<lparr>p_x = - (2 / 5), p_width = 4 / 5, p_height = 25\<rparr>,
                        \<lparr>p_x = 3 / 5, p_width = 4 / 5, p_height = 50\<rparr>,
                        \<lparr>p_x = 8 / 5, p_width = 4 / 5, p_height = 25\<rparr>],
            xticklabels := [Str ''Biscoe'', Str ''Dream'', Str ''Torgersen''],
            texts := [\<lparr>t_x = 0, t_y = 26, t_s = ''25.00%'', t_ha = ''center''\<rparr>,
                      \<lparr>t_x = 1, t_y = 51, t_s = ''50.00%'', t_ha = ''center''\<rparr>,
                      \<lparr>t_x = 2, t_y = 26, t_s = ''25.00%'', t_ha = ''center''\<rparr>],
            title := ''Proportion of island'', xlabel := ''island'',
            ylabel := ''Proportion (%)'', ylim := Some (0, 100),
            xtick_style := Some (45, ''right'')\<rparr>]],
        suptitle = None, subplots_top = None\<rparr>])"
  by (simp add: category_proportions_result sample_island_proportions fmt_2f_samples)

lemma empty_sex_panel:
  "plot_category_proportions empty_sample [''sex''] NoPalette (10, 5) [] =
     (None,
      [\<lparr>figsize = (10, 5),
        panels = [[empty_axes\<lparr>artists :=
             [Barplot (proportions_frame []) ''category'' ''proportion'' NoPalette],
            title := ''Proportion of sex'', xlabel := ''sex'',
            ylabel := ''Proportion (%)'', ylim := Some (0, 100),
            xtick_style := Some (45, ''right'')\<rparr>]],
        suptitle = None, subplots_top = None\<rparr>])"
  by (simp add: category_proportions_result empty_sex_proportions empty_axes_def)

lemma kde_curves_by_group:
  "kde_curves \<lparr>h_data = df, h_x = x, h_hue = Some hue, h_palette = pal, h_bins = b,
                h_multiple = m, h_alpha = al, h_color = cl, h_kde = True\<rparr> =
   map (\<lambda>v. \<lparr>l_kind = Curve, l_color = (case cl of Some c \<Rightarrow> c | None \<Rightarrow> []),
              l_linestyle = ''-'', l_linewidth = 3 / 2, l_label = None\<rparr>)
     (filter (\<lambda>v. 2 \<le> length (remdups (filter is_Num
                        (map (\<lambda>r. cell_of r x) (filter (\<lambda>r. cell_of r hue = v) (rows df))))))
        (remdups (filter (\<lambda>v. v \<noteq> NaN) (map (\<lambda>r. cell_of r hue) (rows df)))))"
  by (simp add: kde_curves_def kde_groups_def estimable_def Let_def filter_map comp_def)

lemma sample_distributions:
  "plot_distributions penguins_sample [''island'', ''sex'']
     [''bill_length_mm'', ''body_mass_g''] pal plt =
   (None, plt @ [\<lparr>figsize = (20, 15),
       panels = map (\<lambda>i. map (\<lambda>j.
           empty_axes\<lparr>artists :=
               [Histplot \<lparr>h_data = penguins_sample,
                  h_x = [''bill_length_mm'', ''body_mass_g''] ! j,
                  h_hue = Some ([''island'', ''sex''] ! i), h_palette = pal, h_bins = 40,
                  h_multiple = Dodge, h_alpha = None, h_color = None, h_kde = True\<rparr>],
             lines := kde_curves \<lparr>h_data = penguins_sample,
                  h_x = [''bill_length_mm'', ''body_mass_g''] ! j,
                  h_hue = Some ([''island'', ''sex''] ! i), h_palette = pal, h_bins = 40,
                  h_multiple = Dodge, h_alpha = None, h_color = None, h_kde = True\<rparr>,
             title := (if i = 0 then [''bill_length_mm'', ''body_mass_g''] ! j else [])\<rparr>)
           [0..<length [''bill_length_mm'', ''body_mass_g'']])
         [0..<length [''island'', ''sex'']],
       suptitle = None, subplots_top = None\<rparr>])"
  by (rule distributions_result) (simp_all add: penguins_sample_def)

lemma sample_groups:
  "remdups (filter (\<lambda>v. v \<noteq> NaN) (map (\<lambda>r. cell_of r ''island'') (rows penguins_sample))) =
     [Str ''Torgersen'', Str ''Biscoe'', Str ''Dream'']"
  by (simp add: penguins_sample_def cell_of_def)

lemma sample_no_curve:
  "kde_curves \<lparr>h_data = penguins_sample, h_x = ''body_mass_g'', h_hue = Some ''island'',
                h_palette = pal, h_bins = 40, h_multiple = Dodge, h_alpha = None,
                h_color = None, h_kde = True\<rparr> = []"
  by (simp add: kde_curves_def kde_groups_def estimable_def Let_def penguins_sample_def
      cell_of_def)

lemma sample_curve_counts:
  "length (filter
     (\<lambda>v. 2 \<le> length (remdups (filter is_Num
                 (map (\<lambda>r. cell_of r ([''bill_length_mm'', ''body_mass_g''] ! 0))
                    (filter (\<lambda>r. cell_of r ([''island'', ''sex''] ! 1) = v)
                       (rows penguins_sample))))))
     (remdups (filter (\<lambda>v. v \<noteq> NaN)
                 (map (\<lambda>r. cell_of r ([''island'', ''sex''] ! 1))
                    (rows penguins_sample))))) = 1"
  "length (filter
     (\<lambda>v. 2 \<le> length (remdups (filter is_Num
                 (map (\<lambda>r. cell_of r ([''bill_length_mm'', ''body_mass_g''] ! 1))
                    (filter (\<lambda>r. cell_of r ([''island'', ''sex''] ! 0) = v)
                       (rows penguins_sample))))))
     (remdups (filter (\<lambda>v. v \<noteq> NaN)
                 (map (\<lambda>r. cell_of r ([''island'', ''sex''] ! 0))
                    (rows penguins_sample))))) = 0"
  by (simp_all add: penguins_sample_def cell_of_def)

lemma mixed_tag_panel:
  "plot_category_proportions mixed_sample [''tag''] NoPalette (10, 5) [] =
     (Some (TypeError ''not supported between instances of str and float''),
      [\<lparr>figsize = (10, 5), panels = [[empty_axes]], suptitle = None,
        subplots_top = None\<rparr>])"
  by (simp add: plot_category_proportions_def subplots_unfold Let_def
      category_proportions_panel_def proportions_of_def getcol_def bind_result_def
      value_counts_normalize_def times_def sort_index_def cell_of_def mixed_sample_def)
section \<open>The plot type check of \<^verbatim>\<open>plot_categorical_vs_numeric\<close>\<close>

text \<open>
  C1, as stated: an unrecognised plot type makes the call fail with the descriptive error
  before any figure is constructed, and with no other error. It does not:
  \<^verbatim>\<open>plt.subplots\<close> runs first, and the check sits in the body of the loops. On the sample
  table with the plot type \<^verbatim>\<open>scatter\<close> the call raises the descriptive error, and pyplot,
  empty before the call, holds a figure of 2x2 blank panels afterwards. With no category
  column the loops are never entered: \<^verbatim>\<open>plt.subplots\<close> makes its figure and then refuses
  a grid of no rows, so the error raised is the charting layer's and not the descriptive
  one.
\<close>

theorem plot_type_error_leaves_figure:
  "plot_categorical_vs_numeric penguins_sample [''island'', ''sex'']
     [''bill_length_mm'', ''body_mass_g''] ''scatter'' NoPalette [] =
     (Some (ValueError plot_type_message),
      [\<lparr>figsize = (20, 15),
        panels = [[empty_axes, empty_axes], [empty_axes, empty_axes]],
        suptitle = None, subplots_top = None\<rparr>])
   \<and> snd (plot_categorical_vs_numeric penguins_sample [''island'', ''sex'']
          [''bill_length_mm'', ''body_mass_g''] ''scatter'' NoPalette []) \<noteq> []
   \<and> plot_categorical_vs_numeric penguins_sample []
        [''bill_length_mm'', ''body_mass_g''] ''scatter'' NoPalette [] =
        (Some (ValueError ''Number of rows must be a positive integer, not 0''),
         [new_figure (20, 15)])
   \<and> ''Number of rows must be a positive integer, not 0'' \<noteq> plot_type_message"
  by (simp add: plot_categorical_vs_numeric_def subplots_unfold categorical_vs_numeric_cell_def
      run_Cons raise_def Let_def numeral_2_eq_2 plot_type_message_def)

text \<open>
  C1, amended: with a plot type other than \<^verbatim>\<open>violin\<close> and \<^verbatim>\<open>box\<close> and both selector
  lists non-empty, the call raises the descriptive \<^verbatim>\<open>ValueError\<close> once the figure and its
  grid of panels are allocated, and every panel is still blank: nothing was drawn. With an
  empty selector list \<^verbatim>\<open>plt.subplots\<close> has made a figure without panels when it refuses
  the grid with a \<^verbatim>\<open>ValueError\<close> of its own.
\<close>

theorem plot_type_rejected_before_drawing:
  assumes "plot_type \<noteq> ''violin''" and "plot_type \<noteq> ''box''"
  shows "(category_columns \<noteq> [] \<and> numeric_columns \<noteq> [] \<longrightarrow>
            plot_categorical_vs_numeric df category_columns numeric_columns plot_type pal plt =
              (Some (ValueError plot_type_message),
               plt @ [blank_figure (20, 15) (length category_columns)
                        (length numeric_columns)]))
       \<and> (category_columns = [] \<or> numeric_columns = [] \<longrightarrow>
            (\<exists>msg. plot_categorical_vs_numeric df category_columns numeric_columns plot_type
                     pal plt = (Some (ValueError msg), plt @ [new_figure (20, 15)])
                   \<and> msg \<noteq> plot_type_message))"
proof (intro conjI impI)
  assume "category_columns \<noteq> [] \<and> numeric_columns \<noteq> []"
  then obtain c cs n ns
    where "category_columns = c # cs" and "numeric_columns = n # ns"
    by (metis list.exhaust)
  with assms
  show "plot_categorical_vs_numeric df category_columns numeric_columns plot_type pal plt =
          (Some (ValueError plot_type_message),
           plt @ [blank_figure (20, 15) (length category_columns) (length numeric_columns)])"
    by (simp add: plot_categorical_vs_numeric_def subplots_unfold
        categorical_vs_numeric_cell_def run_Cons raise_def Let_def blank_figure_def)
next
  assume "category_columns = [] \<or> numeric_columns = []"
  then
  show "\<exists>msg. plot_categorical_vs_numeric df category_columns numeric_columns plot_type pal
                plt = (Some (ValueError msg), plt @ [new_figure (20, 15)])
              \<and> msg \<noteq> plot_type_message"
    by (auto simp add: plot_categorical_vs_numeric_def subplots_unfold plot_type_message_def
        Let_def)
qed

theorem plot_type_rejected_before_drawing_witness:
  "''scatter'' \<noteq> ''violin'' \<and> ''scatter'' \<noteq> ''box''
   \<and> [''island'', ''sex''] \<noteq> [] \<and> [''bill_length_mm''] \<noteq> []
   \<and> plot_categorical_vs_numeric penguins_sample [''island'', ''sex''] [''bill_length_mm'']
       ''scatter'' NoPalette [] =
       (Some (ValueError plot_type_message), [blank_figure (20, 15) 2 1])
   \<and> (\<exists>msg. plot_categorical_vs_numeric penguins_sample [] [''bill_length_mm'']
               ''scatter'' NoPalette [] = (Some (ValueError msg), [new_figure (20, 15)])
             \<and> msg \<noteq> plot_type_message)"
  using plot_type_rejected_before_drawing
          [of "''scatter''" "[''island'', ''sex'']" "[''bill_length_mm'']" penguins_sample
             NoPalette "[]"]
        plot_type_rejected_before_drawing
          [of "''scatter''" "[]" "[''bill_length_mm'']" penguins_sample NoPalette "[]"]
  by (simp add: numeral_2_eq_2)

section \<open>A single panel in the single-row renderers\<close>

text \<open>
  C2 asks every single-row renderer to handle a selector list of one element. Only
  \<^verbatim>\<open>plot_category_proportions\<close> wraps the lone \<^verbatim>\<open>Axes\<close> in a list. The other two index
  what \<^verbatim>\<open>plt.subplots\<close> returned: with one category column, or a statistics table of one
  column, the figure is allocated and the first \<^verbatim>\<open>axs[0]\<close> raises \<^verbatim>\<open>TypeError\<close> with the
  panel still blank.
\<close>

theorem single_panel_not_subscriptable:
  "plot_category_count df [category] color_palette fsize alpha plt =
     (Some (TypeError ''Axes object is not subscriptable''), plt @ [blank_figure fsize 1 1])
   \<and> plot_histograms df [(col, entries)] color_palette fsize bins alpha color kde plt =
     (Some (TypeError ''Axes object is not subscriptable''), plt @ [blank_figure fsize 1 1])"
  by (simp add: plot_category_count_def plot_histograms_def histograms_panel_def
      subplots_unfold run_Cons call_def blank_figure_def)

section \<open>The bars of \<^verbatim>\<open>plot_category_proportions\<close>\<close>

text \<open>
  C3, as stated: the height of a bar is the count of its value divided by the total
  number of rows, times 100. \<^verbatim>\<open>value_counts(normalize=True)\<close> drops the missing cells
  before it counts and divides by the number of cells it counted. In the sample table the
  column \<^verbatim>\<open>sex\<close> has two males, one female and one missing cell in four rows: the bars are
  \<^verbatim>\<open>Female\<close> and \<^verbatim>\<open>Male\<close>, of heights 100/3 and 200/3, where the count of males over
  the number of rows gives 50. And a column that holds both strings and numbers gets no
  bar at all: \<^verbatim>\<open>sort_index\<close> cannot order its labels and raises \<^verbatim>\<open>TypeError\<close> with the
  panel blank.
\<close>

theorem proportion_bars_ignore_missing_rows:
  "xticklabels (panels (last (snd (plot_category_proportions penguins_sample [''sex'']
                                     NoPalette (10, 5) []))) ! 0 ! 0) =
     [Str ''Female'', Str ''Male'']
   \<and> map p_height (patches (panels (last (snd (plot_category_proportions penguins_sample
                                                  [''sex''] NoPalette (10, 5) []))) ! 0 ! 0)) =
     [100 / 3, 200 / 3]
   \<and> rat_of_nat (count_list (map (\<lambda>r. cell_of r ''sex'') (rows penguins_sample))
                    (Str ''Male''))
       / rat_of_nat (length (rows penguins_sample)) * 100 = 50
   \<and> plot_category_proportions mixed_sample [''tag''] NoPalette (10, 5) [] =
       (Some (TypeError ''not supported between instances of str and float''),
        [\<lparr>figsize = (10, 5), panels = [[empty_axes]], suptitle = None,
          subplots_top = None\<rparr>])"
  by (simp add: sample_sex_panel mixed_tag_panel empty_axes_def)
     (simp add: penguins_sample_def cell_of_def)

text \<open>
  C3, amended: for a non-empty selector list whose columns are columns of the table, none
  of them mixing string and numeric labels (such an index cannot be sorted), the call
  returns a figure of one row with one panel per selected column. The tick labels of panel
  \<open>i\<close>, one per bar, are the distinct non-missing values of column \<open>i\<close> in ascending
  order; bar \<open>k\<close> is centred on position \<open>k\<close> and its height is the number of cells of the
  column holding its label, divided by the number of non-missing cells of the column, times
  100; the texts of the panel are, bar by bar, the height printed with two decimals and
  \<^verbatim>\<open>%\<close>, centred on the bar and one unit above its top.
\<close>

theorem proportion_bars_over_present_rows:
  assumes "category_columns \<noteq> []"
    and "\<forall>c\<in>set category_columns. c \<in> set (columns df)
           \<and> \<not> ((\<exists>r\<in>set (rows df). is_Str (cell_of r c))
                \<and> (\<exists>r\<in>set (rows df). is_Num (cell_of r c)))"
  shows "\<exists>fig row. plot_category_proportions df category_columns pal fs plt =
                     (None, plt @ [fig])
     \<and> panels fig = [row] \<and> length row = length category_columns
     \<and> (\<forall>i<length category_columns.
          distinct (xticklabels (row ! i))
        \<and> set (xticklabels (row ! i)) =
            set (filter (\<lambda>v. v \<noteq> NaN)
                   (map (\<lambda>r. cell_of r (category_columns ! i)) (rows df)))
        \<and> sorted (map label_key (xticklabels (row ! i)))
        \<and> length (patches (row ! i)) = length (xticklabels (row ! i))
        \<and> (\<forall>k<length (patches (row ! i)).
             p_height (patches (row ! i) ! k) =
               of_nat (count_list
                         (filter (\<lambda>v. v \<noteq> NaN)
                            (map (\<lambda>r. cell_of r (category_columns ! i)) (rows df)))
                         (xticklabels (row ! i) ! k))
               / of_nat (length
                           (filter (\<lambda>v. v \<noteq> NaN)
                              (map (\<lambda>r. cell_of r (category_columns ! i)) (rows df))))
               * 100
           \<and> p_x (patches (row ! i) ! k) = of_nat k - 2 / 5
           \<and> p_width (patches (row ! i) ! k) = 4 / 5)
        \<and> texts (row ! i) =
            map (\<lambda>p. \<lparr>t_x = p_x p + p_width p / 2, t_y = p_height p + 1,
                       t_s = fmt_2f (p_height p) @ ''%'', t_ha = ''center''\<rparr>)
              (patches (row ! i)))"
proof -
  from category_proportions_panels [OF assms, of pal fs plt] obtain fig row
    where res: "plot_category_proportions df category_columns pal fs plt =
                  (None, plt @ [fig])"
      and row: "panels fig = [row]" "length row = length category_columns"
      and cells: "\<And>i. i < length category_columns \<Longrightarrow> \<exists>props.
          proportions_of df (category_columns ! i) = Inr props
        \<and> xticklabels (row ! i) = map fst props
        \<and> patches (row ! i) =
            map (\<lambda>k. \<lparr>p_x = of_nat k - 2 / 5, p_width = 4 / 5,
                        p_height = snd (props ! k)\<rparr>) [0..<length props]
        \<and> texts (row ! i) =
            map (\<lambda>p. \<lparr>t_x = p_x p + p_width p / 2, t_y = p_height p + 1,
                       t_s = fmt_2f (p_height p) @ ''%'', t_ha = ''center''\<rparr>)
              (patches (row ! i))
        \<and> ylim (row ! i) = Some (0, 100)"
    by blast
  have "distinct (xticklabels (row ! i))
        \<and> set (xticklabels (row ! i)) =
            set (filter (\<lambda>v. v \<noteq> NaN)
                   (map (\<lambda>r. cell_of r (category_columns ! i)) (rows df)))
        \<and> sorted (map label_key (xticklabels (row ! i)))
        \<and> length (patches (row ! i)) = length (xticklabels (row ! i))
        \<and> (\<forall>k<length (patches (row ! i)).
             p_height (patches (row ! i) ! k) =
               of_nat (count_list
                         (filter (\<lambda>v. v \<noteq> NaN)
                            (map (\<lambda>r. cell_of r (category_columns ! i)) (rows df)))
                         (xticklabels (row ! i) ! k))
               / of_nat (length
                           (filter (\<lambda>v. v \<noteq> NaN)
                              (map (\<lambda>r. cell_of r (category_columns ! i)) (rows df))))
               * 100
           \<and> p_x (patches (row ! i) ! k) = of_nat k - 2 / 5
           \<and> p_width (patches (row ! i) ! k) = 4 / 5)
        \<and> texts (row ! i) =
            map (\<lambda>p. \<lparr>t_x = p_x p + p_width p / 2, t_y = p_height p + 1,
                       t_s = fmt_2f (p_height p) @ ''%'', t_ha = ''center''\<rparr>)
              (patches (row ! i))"
    if "i < length category_columns" for i
  proof -
    from cells [OF that] obtain props
      where props: "proportions_of df (category_columns ! i) = Inr props"
        and x: "xticklabels (row ! i) = map fst props"
        and p: "patches (row ! i) =
            map (\<lambda>k. \<lparr>p_x = of_nat k - 2 / 5, p_width = 4 / 5,
                        p_height = snd (props ! k)\<rparr>) [0..<length props]"
        and t: "texts (row ! i) =
            map (\<lambda>p. \<lparr>t_x = p_x p + p_width p / 2, t_y = p_height p + 1,
                       t_s = fmt_2f (p_height p) @ ''%'', t_ha = ''center''\<rparr>)
              (patches (row ! i))"
      by blast
    from proportions_panel_bars(1-5) [OF props x p] t show ?thesis
      by (intro conjI)
  qed
  with res row show ?thesis by blast
qed

theorem proportion_bars_over_present_rows_witness:
  "[''island''] \<noteq> []
   \<and> ''island'' \<in> set (columns penguins_sample)
   \<and> \<not> (\<exists>r\<in>set (rows penguins_sample). is_Num (cell_of r ''island''))
   \<and> (\<exists>fig row. plot_category_proportions penguins_sample [''island''] NoPalette (10, 5) [] =
                    (None, [fig])
        \<and> panels fig = [row] \<and> length row = 1
        \<and> distinct (xticklabels (row ! 0))
        \<and> sorted (map label_key (xticklabels (row ! 0)))
        \<and> xticklabels (row ! 0) = [Str ''Biscoe'', Str ''Dream'', Str ''Torgersen'']
        \<and> map p_height (patches (row ! 0)) = [25, 50, 25]
        \<and> map t_s (texts (row ! 0)) = [''25.00%'', ''50.00%'', ''25.00%''])"
proof -
  have h1: "[''island''] \<noteq> []" by simp
  have col: "''island'' \<in> set (columns penguins_sample)"
    and str: "\<not> (\<exists>r\<in>set (rows penguins_sample). is_Num (cell_of r ''island''))"
    by (simp_all add: penguins_sample_def cell_of_def)
  then have h2: "\<forall>c\<in>set [''island'']. c \<in> set (columns penguins_sample)
           \<and> \<not> ((\<exists>r\<in>set (rows penguins_sample). is_Str (cell_of r c))
                \<and> (\<exists>r\<in>set (rows penguins_sample). is_Num (cell_of r c)))"
    by simp
  from proportion_bars_over_present_rows [OF h1 h2, of NoPalette "(10, 5)" "[]"]
  obtain fig row
    where res: "plot_category_proportions penguins_sample [''island''] NoPalette (10, 5) [] =
                  (None, [] @ [fig])"
      and row: "panels fig = [row]" "length row = length [''island'']"
      and cells: "\<forall>i<length [''island''].
          distinct (xticklabels (row ! i))
        \<and> set (xticklabels (row ! i)) =
            set (filter (\<lambda>v. v \<noteq> NaN)
                   (map (\<lambda>r. cell_of r ([''island''] ! i)) (rows penguins_sample)))
        \<and> sorted (map label_key (xticklabels (row ! i)))
        \<and> length (patches (row ! i)) = length (xticklabels (row ! i))
        \<and> (\<forall>k<length (patches (row ! i)).
             p_height (patches (row ! i) ! k) =
               of_nat (count_list
                         (filter (\<lambda>v. v \<noteq> NaN)
                            (map (\<lambda>r. cell_of r ([''island''] ! i)) (rows penguins_sample)))
                         (xticklabels (row ! i) ! k))
               / of_nat (length
                           (filter (\<lambda>v. v \<noteq> NaN)
                              (map (\<lambda>r. cell_of r ([''island''] ! i))
                                 (rows penguins_sample))))
               * 100
           \<and> p_x (patches (row ! i) ! k) = of_nat k - 2 / 5
           \<and> p_width (patches (row ! i) ! k) = 4 / 5)
        \<and> texts (row ! i) =
            map (\<lambda>p. \<lparr>t_x = p_x p + p_width p / 2, t_y = p_height p + 1,
                       t_s = fmt_2f (p_height p) @ ''%'', t_ha = ''center''\<rparr>)
              (patches (row ! i))"
    by blast
  have "0 < length [''island'']" by simp
  with cells have d: "distinct (xticklabels (row ! 0))"
    and s: "sorted (map label_key (xticklabels (row ! 0)))"
    by blast+
  from res row have "row ! 0 = panels fig ! 0 ! 0" and "length row = 1"
    and "fig = last (snd (plot_category_proportions penguins_sample [''island''] NoPalette
                            (10, 5) []))"
    by simp_all
  then have "xticklabels (row ! 0) = [Str ''Biscoe'', Str ''Dream'', Str ''Torgersen'']"
    and "map p_height (patches (row ! 0)) = [25, 50, 25]"
    and "map t_s (texts (row ! 0)) = [''25.00%'', ''50.00%'', ''25.00%'']"
    by (simp_all add: sample_island_panel empty_axes_def)
  with h1 col str res row d s show ?thesis by simp
qed

text \<open>
  C4, as stated: the percentages of every selected column add up to 100. A column without
  any non-missing cell has no category at all, hence no bar and no percentage: on a table
  with the column \<^verbatim>\<open>sex\<close> and no rows the call returns, the panel has no bar, and the sum
  over its bars is 0. And the y-axis is not fixed regardless of the input: for a column
  that holds both strings and numbers the call raises before it reaches \<^verbatim>\<open>set_ylim\<close>.
\<close>

theorem proportions_of_empty_column_sum_to_zero:
  "fst (plot_category_proportions empty_sample [''sex''] NoPalette (10, 5) []) = None
   \<and> proportions_of empty_sample ''sex'' = Inr []
   \<and> patches (panels (last (snd (plot_category_proportions empty_sample [''sex'']
                                   NoPalette (10, 5) []))) ! 0 ! 0) = []
   \<and> sum_list (map p_height
        (patches (panels (last (snd (plot_category_proportions empty_sample [''sex'']
                                       NoPalette (10, 5) []))) ! 0 ! 0))) \<noteq> 100
   \<and> fst (plot_category_proportions mixed_sample [''tag''] NoPalette (10, 5) []) =
       Some (TypeError ''not supported between instances of str and float'')
   \<and> ylim (panels (last (snd (plot_category_proportions mixed_sample [''tag''] NoPalette
                                (10, 5) []))) ! 0 ! 0) = None"
  by (simp add: empty_sex_panel empty_sex_proportions mixed_tag_panel empty_axes_def)

text \<open>
  C4, amended: under the conditions of C3 the call returns, the y-axis of every panel
  ranges over exactly \<open>[0, 100]\<close>, and the heights of the bars of a panel add up to 100
  whenever the column has a non-missing cell, and to 0 when it has none. The sum is exact:
  the percentages are rationals here.
\<close>

theorem proportions_sum_and_ylim:
  assumes "category_columns \<noteq> []"
    and "\<forall>c\<in>set category_columns. c \<in> set (columns df)
           \<and> \<not> ((\<exists>r\<in>set (rows df). is_Str (cell_of r c))
                \<and> (\<exists>r\<in>set (rows df). is_Num (cell_of r c)))"
  shows "\<exists>fig row. plot_category_proportions df category_columns pal fs plt =
                     (None, plt @ [fig])
     \<and> panels fig = [row] \<and> length row = length category_columns
     \<and> (\<forall>i<length category_columns.
          ylim (row ! i) = Some (0, 100)
        \<and> sum_list (map p_height (patches (row ! i))) =
            (if filter (\<lambda>v. v \<noteq> NaN)
                  (map (\<lambda>r. cell_of r (category_columns ! i)) (rows df)) = []
             then 0 else 100))"
proof -
  from category_proportions_panels [OF assms, of pal fs plt] obtain fig row
    where res: "plot_category_proportions df category_columns pal fs plt =
                  (None, plt @ [fig])"
      and row: "panels fig = [row]" "length row = length category_columns"
      and cells: "\<And>i. i < length category_columns \<Longrightarrow> \<exists>props.
          proportions_of df (category_columns ! i) = Inr props
        \<and> xticklabels (row ! i) = map fst props
        \<and> patches (row ! i) =
            map (\<lambda>k. \<lparr>p_x = of_nat k - 2 / 5, p_width = 4 / 5,
                        p_height = snd (props ! k)\<rparr>) [0..<length props]
        \<and> texts (row ! i) =
            map (\<lambda>p. \<lparr>t_x = p_x p + p_width p / 2, t_y = p_height p + 1,
                       t_s = fmt_2f (p_height p) @ ''%'', t_ha = ''center''\<rparr>)
              (patches (row ! i))
        \<and> ylim (row ! i) = Some (0, 100)"
    by blast
  have "ylim (row ! i) = Some (0, 100)
        \<and> sum_list (map p_height (patches (row ! i))) =
            (if filter (\<lambda>v. v \<noteq> NaN)
                  (map (\<lambda>r. cell_of r (category_columns ! i)) (rows df)) = []
             then 0 else 100)"
    if "i < length category_columns" for i
  proof -
    from cells [OF that] obtain props
      where props: "proportions_of df (category_columns ! i) = Inr props"
        and x: "xticklabels (row ! i) = map fst props"
        and p: "patches (row ! i) =
            map (\<lambda>k. \<lparr>p_x = of_nat k - 2 / 5, p_width = 4 / 5,
                        p_height = snd (props ! k)\<rparr>) [0..<length props]"
        and y: "ylim (row ! i) = Some (0, 100)"
      by blast
    from proportions_panel_bars(6) [OF props x p] y show ?thesis
      by (intro conjI)
  qed
  with res row show ?thesis by blast
qed

theorem proportions_sum_and_ylim_witness:
  "[''sex'', ''island''] \<noteq> []
   \<and> ''sex'' \<in> set (columns penguins_sample) \<and> ''island'' \<in> set (columns penguins_sample)
   \<and> \<not> (\<exists>r\<in>set (rows penguins_sample). is_Num (cell_of r ''sex''))
   \<and> \<not> (\<exists>r\<in>set (rows penguins_sample). is_Num (cell_of r ''island''))
   \<and> (\<exists>fig row. plot_category_proportions penguins_sample [''sex'', ''island''] NoPalette
                     (10, 5) [] = (None, [fig])
        \<and> panels fig = [row] \<and> length row = 2
        \<and> ylim (row ! 0) = Some (0, 100) \<and> ylim (row ! 1) = Some (0, 100)
        \<and> sum_list (map p_height (patches (row ! 0))) = 100
        \<and> sum_list (map p_height (patches (row ! 1))) = 100)"
proof -
  have h1: "[''sex'', ''island''] \<noteq> []" by simp
  have cols: "''sex'' \<in> set (columns penguins_sample)"
      "''island'' \<in> set (columns penguins_sample)"
    and strs: "\<not> (\<exists>r\<in>set (rows penguins_sample). is_Num (cell_of r ''sex''))"
      "\<not> (\<exists>r\<in>set (rows penguins_sample). is_Num (cell_of r ''island''))"
    by (simp_all add: penguins_sample_def cell_of_def)
  then have h2: "\<forall>c\<in>set [''sex'', ''island'']. c \<in> set (columns penguins_sample)
           \<and> \<not> ((\<exists>r\<in>set (rows penguins_sample). is_Str (cell_of r c))
                \<and> (\<exists>r\<in>set (rows penguins_sample). is_Num (cell_of r c)))"
    by simp
  have present: "filter (\<lambda>v. v \<noteq> NaN)
                   (map (\<lambda>r. cell_of r ''sex'') (rows penguins_sample)) \<noteq> []"
      "filter (\<lambda>v. v \<noteq> NaN)
         (map (\<lambda>r. cell_of r ''island'') (rows penguins_sample)) \<noteq> []"
    by (simp_all add: penguins_sample_def cell_of_def)
  from proportions_sum_and_ylim [OF h1 h2, of NoPalette "(10, 5)" "[]"]
  obtain fig row
    where res: "plot_category_proportions penguins_sample [''sex'', ''island''] NoPalette
                  (10, 5) [] = (None, [] @ [fig])"
      and row: "panels fig = [row]" "length row = length [''sex'', ''island'']"
      and cells: "\<forall>i<length [''sex'', ''island''].
          ylim (row ! i) = Some (0, 100)
        \<and> sum_list (map p_height (patches (row ! i))) =
            (if filter (\<lambda>v. v \<noteq> NaN)
                  (map (\<lambda>r. cell_of r ([''sex'', ''island''] ! i)) (rows penguins_sample)) = []
             then 0 else 100)"
    by blast
  have "0 < length [''sex'', ''island'']" and "1 < length [''sex'', ''island'']"
    by simp_all
  with cells
  have "ylim (row ! 0) = Some (0, 100)
        \<and> sum_list (map p_height (patches (row ! 0))) =
            (if filter (\<lambda>v. v \<noteq> NaN)
                  (map (\<lambda>r. cell_of r ([''sex'', ''island''] ! 0)) (rows penguins_sample)) = []
             then 0 else 100)"
    and "ylim (row ! 1) = Some (0, 100)
        \<and> sum_list (map p_height (patches (row ! 1))) =
            (if filter (\<lambda>v. v \<noteq> NaN)
                  (map (\<lambda>r. cell_of r ([''sex'', ''island''] ! 1)) (rows penguins_sample)) = []
             then 0 else 100)"
    by blast+
  with present
  have "ylim (row ! 0) = Some (0, 100)" and "ylim (row ! 1) = Some (0, 100)"
    and "sum_list (map p_height (patches (row ! 0))) = 100"
    and "sum_list (map p_height (patches (row ! 1))) = 100"
    by simp_all
  with h1 cols strs res row show ?thesis by simp
qed

section \<open>Grids of a single row or a single column\<close>

text \<open>
  The three grid renderers index the panels as a two-dimensional array, by \<^verbatim>\<open>axs[i, j]\<close>
  or by \<^verbatim>\<open>axs[i][j]\<close>. \<^verbatim>\<open>plt.subplots\<close> returns such an array only for a grid of at
  least two rows and two columns; there the renderers fill every cell (lemmas
  \<open>categorical_vs_numeric_result\<close>, \<open>distributions_result\<close> and
  \<open>distribution_specie_result\<close>, which also give the conditions under which the calls
  return). For a single row or a single column it returns a one-dimensional array, and none
  of the three renderers has the guard that \<^verbatim>\<open>plot_category_proportions\<close> has for its
  own squeezed case: the first cell raises and the grid stays blank.

  C5 asks for the mirrored split mode in the row of index 2 of the violin grid. With at
  least two category columns and one numeric column the first \<^verbatim>\<open>axs[0, 0]\<close> raises
  \<^verbatim>\<open>IndexError\<close>; on the sample table with three category columns no chart is drawn in
  any of the three rows, the row of index 2 included.
\<close>

theorem violin_single_column_grid_not_drawn:
  "plot_categorical_vs_numeric df (c0 # c1 # cs) [n] ''violin'' pal plt =
     (Some (IndexError ''too many indices for array''),
      plt @ [blank_figure (20, 15) (Suc (Suc (length cs))) 1])
   \<and> plot_categorical_vs_numeric penguins_sample [''sex'', ''island'', ''species'']
        [''body_mass_g''] ''violin'' NoPalette [] =
     (Some (IndexError ''too many indices for array''),
      [\<lparr>figsize = (20, 15), panels = [[empty_axes], [empty_axes], [empty_axes]],
        suptitle = None, subplots_top = None\<rparr>])
   \<and> artists (panels (last (snd (plot_categorical_vs_numeric penguins_sample
                                   [''sex'', ''island'', ''species''] [''body_mass_g'']
                                   ''violin'' NoPalette []))) ! 2 ! 0) = []"
  by (simp add: violin_column_grid blank_figure_def empty_axes_def)

text \<open>
  C7 asks for the numeric column name as the title of every panel of row 0, in both
  \<^verbatim>\<open>plot_categorical_vs_numeric\<close> and \<^verbatim>\<open>plot_distributions\<close>. With one category column
  and at least two numeric columns every panel lies in row 0, and none gets its title:
  the box variant and \<^verbatim>\<open>plot_distributions\<close> raise \<^verbatim>\<open>TypeError\<close> at the first
  \<^verbatim>\<open>axs[0][0]\<close>, the violin variant raises \<^verbatim>\<open>IndexError\<close> at the first \<^verbatim>\<open>axs[0, 0]\<close>, and
  the panels are as \<^verbatim>\<open>plt.subplots\<close> made them.
\<close>

theorem single_row_grid_untitled:
  "plot_categorical_vs_numeric df [c] (n0 # n1 # ns) ''box'' pal plt =
     (Some (TypeError ''Axes object is not subscriptable''),
      plt @ [blank_figure (20, 15) 1 (Suc (Suc (length ns)))])
   \<and> plot_categorical_vs_numeric df [c] (n0 # n1 # ns) ''violin'' pal plt =
     (Some (IndexError ''too many indices for array''),
      plt @ [blank_figure (20, 15) 1 (Suc (Suc (length ns)))])
   \<and> plot_distributions df [c] (n0 # n1 # ns) pal plt =
     (Some (TypeError ''Axes object is not subscriptable''),
      plt @ [blank_figure (20, 15) 1 (Suc (Suc (length ns)))])
   \<and> title (panels (last (snd (plot_categorical_vs_numeric penguins_sample [''sex'']
                                 [''bill_length_mm'', ''body_mass_g''] ''box'' NoPalette [])))
              ! 0 ! 0) = []
   \<and> title (panels (last (snd (plot_distributions penguins_sample [''sex'']
                                 [''bill_length_mm'', ''body_mass_g''] NoPalette [])))
              ! 0 ! 1) = []"
  by (simp add: box_row_grid violin_row_grid distributions_row_grid blank_figure_def
      empty_axes_def)

text \<open>
  C9 asks \<^verbatim>\<open>plot_distribution_specie\<close> to build the full grid and to title the figure
  with the species, raising no error of its own. With one numeric column and at least two
  category columns, or the other way round, the first \<^verbatim>\<open>axs[0][0]\<close> raises \<^verbatim>\<open>TypeError\<close>,
  whatever the species and whether or not any row matches it: no histogram is drawn, and
  \<^verbatim>\<open>fig.suptitle\<close>, which follows the loops, is never reached.
\<close>

theorem species_single_row_grid_not_built:
  "plot_distribution_specie penguins_sample [n] (c0 # c1 # cs) species pal bins plt =
     (Some (TypeError ''Axes object is not subscriptable''),
      plt @ [blank_figure (15, 13) 1 (Suc (Suc (length cs)))])
   \<and> plot_distribution_specie penguins_sample (n0 # n1 # ns) [c] species pal bins plt =
     (Some (TypeError ''Axes object is not subscriptable''),
      plt @ [blank_figure (15, 13) (Suc (Suc (length ns))) 1])
   \<and> suptitle (last (snd (plot_distribution_specie penguins_sample [''body_mass_g'']
                            [''island'', ''sex''] ''Adelie'' NoPalette 20 []))) = None
   \<and> artists (panels (last (snd (plot_distribution_specie penguins_sample [''body_mass_g'']
                                   [''island'', ''sex''] ''Adelie'' NoPalette 20 [])))
                ! 0 ! 1) = []"
proof -
  have "''species'' \<in> set (columns penguins_sample)"
    by (simp add: penguins_sample_def)
  then show ?thesis
    by (simp add: distribution_specie_row_grid distribution_specie_column_grid
        blank_figure_def empty_axes_def)
qed

section \<open>The density curves of \<^verbatim>\<open>plot_distributions\<close>\<close>

text \<open>
  C8, as stated: every cell shows a density curve per group. The curves are requested with
  \<^verbatim>\<open>kde=True\<close>, and the charting layer draws one only for a group whose values have a
  variance. In the sample table the three islands have at most one body mass each: the
  call returns, the cell of \<^verbatim>\<open>island\<close> and \<^verbatim>\<open>body_mass_g\<close> holds its histogram of three
  groups, and no curve.
\<close>

theorem distributions_group_without_curve:
  "fst (plot_distributions penguins_sample [''island'', ''sex'']
          [''bill_length_mm'', ''body_mass_g''] NoPalette []) = None
   \<and> artists (panels (last (snd (plot_distributions penguins_sample [''island'', ''sex'']
                                   [''bill_length_mm'', ''body_mass_g''] NoPalette [])))
                ! 0 ! 1) =
       [Histplot \<lparr>h_data = penguins_sample, h_x = ''body_mass_g'', h_hue = Some ''island'',
          h_palette = NoPalette, h_bins = 40, h_multiple = Dodge, h_alpha = None,
          h_color = None, h_kde = True\<rparr>]
   \<and> lines (panels (last (snd (plot_distributions penguins_sample [''island'', ''sex'']
                                 [''bill_length_mm'', ''body_mass_g''] NoPalette [])))
              ! 0 ! 1) = []
   \<and> remdups (filter (\<lambda>v. v \<noteq> NaN)
                (map (\<lambda>r. cell_of r ''island'') (rows penguins_sample))) =
       [Str ''Torgersen'', Str ''Biscoe'', Str ''Dream'']"
  by (simp add: sample_distributions sample_no_curve sample_groups empty_axes_def)

text \<open>
  C8, amended: on a grid of at least two category columns and two numeric columns, all of
  them columns of the table, the call returns and the one chart of cell \<open>(i, j)\<close> is a
  histogram of numeric column \<open>j\<close> grouped by category column \<open>i\<close>, with 40 bins, the
  groups side by side (\<^verbatim>\<open>dodge\<close>) and the density curves requested. The lines of the cell
  are density curves, one for each group that has at least two distinct numbers in the
  numeric column and none for the other groups; a group is the set of rows sharing a
  non-missing value of the category column.
\<close>

theorem distributions_cells_bins_dodge_curves:
  assumes "2 \<le> length category_columns" and "2 \<le> length numeric_columns"
    and "set category_columns \<subseteq> set (columns df)"
    and "set numeric_columns \<subseteq> set (columns df)"
  shows "\<exists>fig. plot_distributions df category_columns numeric_columns pal plt =
                 (None, plt @ [fig])
     \<and> (\<forall>i<length category_columns. \<forall>j<length numeric_columns.
          (\<exists>args. artists (panels fig ! i ! j) = [Histplot args]
             \<and> h_data args = df \<and> h_x args = numeric_columns ! j
             \<and> h_hue args = Some (category_columns ! i)
             \<and> h_bins args = 40 \<and> h_multiple args = Dodge \<and> h_kde args = True)
        \<and> (\<forall>l\<in>set (lines (panels fig ! i ! j)). l_kind l = Curve)
        \<and> length (lines (panels fig ! i ! j)) =
            length (filter
              (\<lambda>v. 2 \<le> length (remdups (filter is_Num
                          (map (\<lambda>r. cell_of r (numeric_columns ! j))
                             (filter (\<lambda>r. cell_of r (category_columns ! i) = v) (rows df))))))
              (remdups (filter (\<lambda>v. v \<noteq> NaN)
                          (map (\<lambda>r. cell_of r (category_columns ! i)) (rows df))))))"
  by (simp add: distributions_result [OF assms] kde_curves_by_group empty_axes_def)

theorem distributions_cells_bins_dodge_curves_witness:
  "2 \<le> length [''island'', ''sex''] \<and> 2 \<le> length [''bill_length_mm'', ''body_mass_g'']
   \<and> set [''island'', ''sex''] \<subseteq> set (columns penguins_sample)
   \<and> set [''bill_length_mm'', ''body_mass_g''] \<subseteq> set (columns penguins_sample)
   \<and> (\<exists>fig. plot_distributions penguins_sample [''island'', ''sex'']
                [''bill_length_mm'', ''body_mass_g''] NoPalette [] = (None, [fig])
        \<and> (\<exists>args. artists (panels fig ! 1 ! 0) = [Histplot args]
              \<and> h_x args = ''bill_length_mm'' \<and> h_hue args = Some ''sex''
              \<and> h_bins args = 40 \<and> h_multiple args = Dodge \<and> h_kde args = True)
        \<and> length (lines (panels fig ! 1 ! 0)) = 1
        \<and> length (lines (panels fig ! 0 ! 1)) = 0)"
proof -
  have h: "2 \<le> length [''island'', ''sex'']"
      "2 \<le> length [''bill_length_mm'', ''body_mass_g'']"
      "set [''island'', ''sex''] \<subseteq> set (columns penguins_sample)"
      "set [''bill_length_mm'', ''body_mass_g''] \<subseteq> set (columns penguins_sample)"
    by (simp_all add: penguins_sample_def)
  from distributions_cells_bins_dodge_curves [OF h, of NoPalette "[]"] obtain fig
    where res: "plot_distributions penguins_sample [''island'', ''sex'']
                  [''bill_length_mm'', ''body_mass_g''] NoPalette [] = (None, [] @ [fig])"
      and cells: "\<And>i j. i < length [''island'', ''sex''] \<Longrightarrow>
          j < length [''bill_length_mm'', ''body_mass_g''] \<Longrightarrow>
          (\<exists>args. artists (panels fig ! i ! j) = [Histplot args]
             \<and> h_data args = penguins_sample
             \<and> h_x args = [''bill_length_mm'', ''body_mass_g''] ! j
             \<and> h_hue args = Some ([''island'', ''sex''] ! i)
             \<and> h_bins args = 40 \<and> h_multiple args = Dodge \<and> h_kde args = True)
        \<and> (\<forall>l\<in>set (lines (panels fig ! i ! j)). l_kind l = Curve)
        \<and> length (lines (panels fig ! i ! j)) =
            length (filter
              (\<lambda>v. 2 \<le> length (remdups (filter is_Num
                          (map (\<lambda>r. cell_of r ([''bill_length_mm'', ''body_mass_g''] ! j))
                             (filter (\<lambda>r. cell_of r ([''island'', ''sex''] ! i) = v)
                                (rows penguins_sample))))))
              (remdups (filter (\<lambda>v. v \<noteq> NaN)
                          (map (\<lambda>r. cell_of r ([''island'', ''sex''] ! i))
                             (rows penguins_sample)))))"
    by blast
  from cells [of 1 0]
  have args: "\<exists>args. artists (panels fig ! 1 ! 0) = [Histplot args]
              \<and> h_x args = ''bill_length_mm'' \<and> h_hue args = Some ''sex''
              \<and> h_bins args = 40 \<and> h_multiple args = Dodge \<and> h_kde args = True"
    by auto
  from cells [of 1 0]
  have "length (lines (panels fig ! 1 ! 0)) =
            length (filter
              (\<lambda>v. 2 \<le> length (remdups (filter is_Num
                          (map (\<lambda>r. cell_of r ([''bill_length_mm'', ''body_mass_g''] ! 0))
                             (filter (\<lambda>r. cell_of r ([''island'', ''sex''] ! 1) = v)
                                (rows penguins_sample))))))
              (remdups (filter (\<lambda>v. v \<noteq> NaN)
                          (map (\<lambda>r. cell_of r ([''island'', ''sex''] ! 1))
                             (rows penguins_sample)))))"
    by simp
  then have one: "length (lines (panels fig ! 1 ! 0)) = 1"
    by (simp only: sample_curve_counts)
  from cells [of 0 1]
  have "length (lines (panels fig ! 0 ! 1)) =
            length (filter
              (\<lambda>v. 2 \<le> length (remdups (filter is_Num
                          (map (\<lambda>r. cell_of r ([''bill_length_mm'', ''body_mass_g''] ! 1))
                             (filter (\<lambda>r. cell_of r ([''island'', ''sex''] ! 0) = v)
                                (rows penguins_sample))))))
              (remdups (filter (\<lambda>v. v \<noteq> NaN)
                          (map (\<lambda>r. cell_of r ([''island'', ''sex''] ! 0))
                             (rows penguins_sample)))))"
    by simp
  then have none: "length (lines (panels fig ! 0 ! 1)) = 0"
    by (simp only: sample_curve_counts)
  from h res args one none show ?thesis by simp
qed

section \<open>The histograms with their statistics\<close>

text \<open>
  With \<^verbatim>\<open>kde=True\<close>, a statistics table of at least two columns, and data with a variance
  in each of these columns, \<^verbatim>\<open>plot_histograms\<close> draws one panel per column of the
  statistics table, each with its density curve, the three reference lines and the legend
  (lemma \<open>histograms_result\<close>; lemma \<open>histograms_success_D\<close> shows that the call returns
  in no other case).

  C6 asks for the three reference lines in every panel. The parameter \<^verbatim>\<open>kde\<close> is
  documented as a switch, and the statement after the histogram recolours
  \<^verbatim>\<open>ax[i].lines[0]\<close>, the density curve. With \<^verbatim>\<open>kde=False\<close> there is no such line: the
  call never returns, whatever the other arguments, and on the sample table it raises
  \<^verbatim>\<open>IndexError\<close> when the first panel holds its histogram and nothing else, no reference
  line and no legend.
\<close>

theorem histograms_kde_off_no_reference_line:
  "fst (plot_histograms df stats pal fs bins alpha color False plt) \<noteq> None
   \<and> plot_histograms penguins_sample stats_sample NoPalette (20, 5) 50 (11 / 20)
       ''#0f7175ff'' False [] =
     (Some (IndexError ''list index out of range''),
      [\<lparr>figsize = (20, 5),
        panels = [[empty_axes\<lparr>artists :=
                      [Histplot \<lparr>h_data = penguins_sample, h_x = ''bill_length_mm'',
                         h_hue = None, h_palette = NoPalette, h_bins = 50,
                         h_multiple = Layer, h_alpha = Some (11 / 20),
                         h_color = Some ''#0f7175ff'', h_kde = False\<rparr>],
                    xlabel := ''bill_length_mm'', ylabel := ''Count''\<rparr>,
                   empty_axes]],
        suptitle = None, subplots_top = None\<rparr>])
   \<and> lines (panels (last (snd (plot_histograms penguins_sample stats_sample NoPalette
                                 (20, 5) 50 (11 / 20) ''#0f7175ff'' False []))) ! 0 ! 0) = []
   \<and> legend (panels (last (snd (plot_histograms penguins_sample stats_sample NoPalette
                                  (20, 5) 50 (11 / 20) ''#0f7175ff'' False []))) ! 0 ! 0) = None"
proof -
  have never: "fst (plot_histograms df stats pal fs bins alpha color False plt) \<noteq> None"
    using histograms_success_D [of df stats pal fs bins alpha color False plt] by blast
  have col: "''bill_length_mm'' \<in> set (columns penguins_sample)"
    by (simp add: penguins_sample_def)
  have run: "plot_histograms penguins_sample stats_sample NoPalette (20, 5) 50 (11 / 20)
       ''#0f7175ff'' False [] =
     (Some (IndexError ''list index out of range''),
      [\<lparr>figsize = (20, 5),
        panels = [[empty_axes\<lparr>artists :=
                      [Histplot \<lparr>h_data = penguins_sample, h_x = ''bill_length_mm'',
                         h_hue = None, h_palette = NoPalette, h_bins = 50,
                         h_multiple = Layer, h_alpha = Some (11 / 20),
                         h_color = Some ''#0f7175ff'', h_kde = False\<rparr>],
                    xlabel := ''bill_length_mm'', ylabel := ''Count''\<rparr>,
                   empty_axes]],
        suptitle = None, subplots_top = None\<rparr>])"
    using col
    by (simp add: plot_histograms_def subplots_unfold stats_sample_def histograms_panel_def
        run_Cons call_def histplot_def bind_result_def check_vars_def record_call_def
        kde_curves_def set_line_color_def panel_at_def put_panel_def empty_axes_def)
  from never show ?thesis
    by (simp add: run empty_axes_def)
qed

text \<open>
  C10 asks for exactly one panel drawn per column of the statistics table, on every call.
  With a statistics table of one column the lone panel is never indexed successfully and
  stays blank; with \<^verbatim>\<open>kde=False\<close> and the two columns of the sample statistics the call
  stops in the first panel, and the panel of the second column is never drawn.
\<close>

theorem histograms_panels_left_blank:
  "plot_histograms penguins_sample
     [(''bill_length_mm'', [(''mean'', 439 / 10), (''25%'', 392 / 10), (''75%'', 485 / 10)])]
     NoPalette (20, 5) 50 (11 / 20) ''#0f7175ff'' True [] =
     (Some (TypeError ''Axes object is not subscriptable''),
      [\<lparr>figsize = (20, 5), panels = [[empty_axes]], suptitle = None,
        subplots_top = None\<rparr>])
   \<and> fst (plot_histograms penguins_sample stats_sample NoPalette (20, 5) 50 (11 / 20)
            ''#0f7175ff'' False []) = Some (IndexError ''list index out of range'')
   \<and> map (\<lambda>a. length (artists a))
        (hd (panels (last (snd (plot_histograms penguins_sample stats_sample NoPalette
                                  (20, 5) 50 (11 / 20) ''#0f7175ff'' False []))))) = [1, 0]"
proof -
  have col: "''bill_length_mm'' \<in> set (columns penguins_sample)"
    by (simp add: penguins_sample_def)
  then show ?thesis
    by (simp add: plot_histograms_def subplots_unfold stats_sample_def histograms_panel_def
        run_Cons call_def histplot_def bind_result_def check_vars_def record_call_def
        kde_curves_def set_line_color_def panel_at_def put_panel_def empty_axes_def)
qed


end
